theory Spec2Isabelle
  imports Main "HOL-Library.Sublist" "HOL-Library.AList"
begin

section \<open>JavaScript strings\<close>

text \<open>
  A JavaScript string is a sequence of UTF-16 code units; \<open>length\<close>, \<open>substring\<close>,
  \<open>startsWith\<close>, \<open>includes_js\<close> and regular expressions without the \<open>u\<close> flag all work
  on code units. A string is therefore a list of code-unit values. The ASCII part of a
  literal is written with \<open>js\<close>; the Chinese texts of the source are given by their code
  units.
\<close>

type_synonym jstring = "nat list"

definition js :: "string \<Rightarrow> jstring" where
  "js s = map of_char s"

text \<open>\<open>WhiteSpace\<close> and \<open>LineTerminator\<close> of ECMAScript: what \<open>trim\<close> strips and \<open>\s\<close> matches.\<close>

definition isSpace :: "nat \<Rightarrow> bool" where
  "isSpace c \<longleftrightarrow>
     c = 9 \<or> c = 10 \<or> c = 11 \<or> c = 12 \<or> c = 13 \<or> c = 32 \<or> c = 160 \<or> c = 5760 \<or>
     (8192 \<le> c \<and> c \<le> 8202) \<or> c = 8232 \<or> c = 8233 \<or> c = 8239 \<or> c = 8287 \<or>
     c = 12288 \<or> c = 65279"

text \<open>\<open>\w\<close> is \<open>[A-Za-z0-9_]\<close>.\<close>

definition isWordChar :: "nat \<Rightarrow> bool" where
  "isWordChar c \<longleftrightarrow>
     (65 \<le> c \<and> c \<le> 90) \<or> (97 \<le> c \<and> c \<le> 122) \<or> (48 \<le> c \<and> c \<le> 57) \<or> c = 95"

definition trim :: "jstring \<Rightarrow> jstring" where
  "trim s = rev (dropWhile isSpace (rev (dropWhile isSpace s)))"

definition upper_ascii :: "nat \<Rightarrow> nat" where
  "upper_ascii c = (if 97 \<le> c \<and> c \<le> 122 then c - 32 else c)"

text \<open>
  \<open>String.prototype.toUpperCase\<close>. On a string of ASCII code units it maps \<open>a..z\<close> to
  \<open>A..Z\<close> and leaves the rest. What it does to a string with a code unit outside ASCII is
  the host's Unicode case table, which is no part of the repository: it is the parameter
  \<open>U\<close>, and every theorem below holds for every \<open>U\<close>.
\<close>

definition toUpperCase :: "(jstring \<Rightarrow> jstring) \<Rightarrow> jstring \<Rightarrow> jstring" where
  "toUpperCase U s = (if list_all (\<lambda>c. c < 128) s then map upper_ascii s else U s)"

definition startsWith :: "jstring \<Rightarrow> jstring \<Rightarrow> bool" where
  "startsWith s p = prefix p s"

definition endsWith :: "jstring \<Rightarrow> jstring \<Rightarrow> bool" where
  "endsWith s p = suffix p s"

definition includes_js :: "jstring \<Rightarrow> jstring \<Rightarrow> bool" where
  "includes_js s p = sublist p s"

fun join :: "jstring \<Rightarrow> jstring list \<Rightarrow> jstring" where
  "join sep [] = []"
| "join sep [x] = x"
| "join sep (x # y # ys) = x @ sep @ join sep (y # ys)"

section \<open>Error codes and the error class (utils/errors.js)\<close>

definition CONNECTION_FAILED :: nat where "CONNECTION_FAILED = 101"
definition AUTH_FAILED :: nat where "AUTH_FAILED = 102"
definition TIMEOUT :: nat where "TIMEOUT = 103"
definition CONFIG_NOT_FOUND :: nat where "CONFIG_NOT_FOUND = 201"
definition CONFIG_PARSE_ERROR :: nat where "CONFIG_PARSE_ERROR = 202"
definition MISSING_REQUIRED_PARAM :: nat where "MISSING_REQUIRED_PARAM = 203"
definition TABLE_NOT_FOUND :: nat where "TABLE_NOT_FOUND = 301"
definition SQL_SYNTAX_ERROR :: nat where "SQL_SYNTAX_ERROR = 302"
definition QUERY_EXECUTION_ERROR :: nat where "QUERY_EXECUTION_ERROR = 303"
definition ACCESS_DENIED :: nat where "ACCESS_DENIED = 304"
definition FILE_EXISTS :: nat where "FILE_EXISTS = 401"
definition WRITE_PERMISSION_DENIED :: nat where "WRITE_PERMISSION_DENIED = 402"
definition UNKNOWN :: nat where "UNKNOWN = 999"

definition SUCCESS :: nat where "SUCCESS = 0"
definition CONNECTION_ERROR :: nat where "CONNECTION_ERROR = 1"
definition CONFIG_ERROR :: nat where "CONFIG_ERROR = 2"
definition QUERY_ERROR :: nat where "QUERY_ERROR = 3"
definition OUTPUT_ERROR :: nat where "OUTPUT_ERROR = 4"
definition UNKNOWN_ERROR :: nat where "UNKNOWN_ERROR = 99"

definition getExitCode :: "nat \<Rightarrow> nat" where
  "getExitCode errorCode =
     (if 100 \<le> errorCode \<and> errorCode < 200 then CONNECTION_ERROR
      else if 200 \<le> errorCode \<and> errorCode < 300 then CONFIG_ERROR
      else if 300 \<le> errorCode \<and> errorCode < 400 then QUERY_ERROR
      else if 400 \<le> errorCode \<and> errorCode < 500 then OUTPUT_ERROR
      else UNKNOWN_ERROR)"

text \<open>
  The table \<open>ErrorMessages\<close>: the default text of each code (Chinese in the source, here
  as code units). A code outside the table has no entry. In English, in the order of the
  table: cannot connect to the database; database authentication failed, check user name
  and password; connection timed out, check the network or the state of the database
  service; configuration file not found; configuration file parse error; missing required
  parameter; table does not exist; SQL syntax error; query execution failed; access denied,
  the table is not in the allowed whitelist; file exists, use --force to overwrite; no write
  permission; unknown error.
\<close>

definition ErrorMessages :: "nat \<Rightarrow> jstring option" where
  "ErrorMessages c =
     (if c = CONNECTION_FAILED then Some [26080, 27861, 36830, 25509, 21040, 25968, 25454, 24211]
      else if c = AUTH_FAILED then
        Some [25968, 25454, 24211, 35748, 35777, 22833, 36133, 65292, 35831, 26816, 26597,
              29992, 25143, 21517, 21644, 23494, 30721]
      else if c = TIMEOUT then
        Some [36830, 25509, 36229, 26102, 65292, 35831, 26816, 26597, 32593, 32476, 25110,
              25968, 25454, 24211, 26381, 21153, 29366, 24577]
      else if c = CONFIG_NOT_FOUND then Some [37197, 32622, 25991, 20214, 26410, 25214, 21040]
      else if c = CONFIG_PARSE_ERROR then
        Some [37197, 32622, 25991, 20214, 35299, 26512, 38169, 35823]
      else if c = MISSING_REQUIRED_PARAM then Some [32570, 23569, 24517, 22635, 21442, 25968]
      else if c = TABLE_NOT_FOUND then Some [34920, 19981, 23384, 22312]
      else if c = SQL_SYNTAX_ERROR then Some (js ''SQL '' @ [35821, 27861, 38169, 35823])
      else if c = QUERY_EXECUTION_ERROR then Some [26597, 35810, 25191, 34892, 22833, 36133]
      else if c = ACCESS_DENIED then
        Some [35775, 38382, 34987, 25298, 32477, 65292, 34920, 19981, 22312, 20801, 35768,
              30340, 30333, 21517, 21333, 20013]
      else if c = FILE_EXISTS then
        Some ([25991, 20214, 24050, 23384, 22312, 65292, 20351, 29992] @ js '' --force ''
              @ [35206, 30422])
      else if c = WRITE_PERMISSION_DENIED then Some [27809, 26377, 20889, 20837, 26435, 38480]
      else if c = UNKNOWN then Some [26410, 30693, 38169, 35823]
      else None)"

text \<open>
  An \<open>OracleMapError\<close>: the constructor takes the code, an optional message and the
  details, and fills in the default message (\<open>message || defaultMessage\<close>, so an empty
  message counts as none) and the exit code of the code's range.
\<close>

record OracleMapError =
  code :: nat
  message :: jstring
  details :: "(jstring \<times> jstring) list"
  exitCode :: nat

definition new_OracleMapError ::
  "nat \<Rightarrow> jstring option \<Rightarrow> (jstring \<times> jstring) list \<Rightarrow> OracleMapError" where
  "new_OracleMapError c msg det =
     (let defaultMessage =
            (case ErrorMessages c of
               Some m \<Rightarrow> m
             | None \<Rightarrow> (case ErrorMessages UNKNOWN of Some m \<Rightarrow> m | None \<Rightarrow> []))
      in \<lparr> code = c,
           message = (case msg of
                        None \<Rightarrow> defaultMessage
                      | Some m \<Rightarrow> if m = [] then defaultMessage else m),
           details = det,
           exitCode = getExitCode c \<rparr>)"

text \<open>
  What a \<open>catch\<close> can receive. The driver throws its own errors, of which the code reads
  only \<open>message\<close> (absent in \<open>None\<close>); the code throws \<open>OracleMapError\<close>s; a call of
  a missing method is a \<open>TypeError\<close>.
\<close>

datatype native_error = NativeError "jstring option"

datatype exn = Classified OracleMapError | Native native_error | TypeError

fun message_or_empty :: "native_error \<Rightarrow> jstring" where
  "message_or_empty (NativeError None) = []"
| "message_or_empty (NativeError (Some m)) = m"

section \<open>Connection errors (db/connection.js)\<close>

text \<open>
  \<open>handleConnectionError(error)\<close> reads \<open>error.message || ''\<close> and tests it for the
  signatures of Oracle in the source's order. The messages say, in English: database
  authentication failed, check user name and password; connection timed out, check the
  network or the state of the database service (suggestion: confirm that host and port are
  right and the network is reachable); cannot connect to the database listener (suggestion:
  confirm that the Oracle listener is started); the service name does not exist
  (suggestion: check the service name); database connection failed, followed by the native
  message.
\<close>

definition handleConnectionError :: "native_error \<Rightarrow> OracleMapError" where
  "handleConnectionError error =
     (let oraError = message_or_empty error in
      if includes_js oraError (js ''ORA-01017'') \<or> includes_js oraError (js ''invalid username/password'')
      then new_OracleMapError AUTH_FAILED
             (Some [25968, 25454, 24211, 35748, 35777, 22833, 36133, 65292, 35831, 26816,
                    26597, 29992, 25143, 21517, 21644, 23494, 30721])
             [(js ''oracleError'', oraError)]
      else if includes_js oraError (js ''ORA-12170'') \<or> includes_js oraError (js ''TNS:Connect timeout'')
      then new_OracleMapError TIMEOUT
             (Some [36830, 25509, 36229, 26102, 65292, 35831, 26816, 26597, 32593, 32476,
                    25110, 25968, 25454, 24211, 26381, 21153, 29366, 24577])
             [(js ''oracleError'', oraError),
              (js ''suggestion'',
               [35831, 30830, 35748, 25968, 25454, 24211, 20027, 26426, 21644, 31471, 21475,
                26159, 21542, 27491, 30830, 65292, 32593, 32476, 26159, 21542, 21487, 36798])]
      else if includes_js oraError (js ''ORA-12541'') \<or> includes_js oraError (js ''TNS:no listener'')
      then new_OracleMapError CONNECTION_FAILED
             (Some [26080, 27861, 36830, 25509, 21040, 25968, 25454, 24211, 30417, 21548, 22120])
             [(js ''oracleError'', oraError),
              (js ''suggestion'',
               [35831, 30830, 35748] @ js '' Oracle ''
               @ [30417, 21548, 22120, 26159, 21542, 21551, 21160])]
      else if includes_js oraError (js ''ORA-12514'')
              \<or> includes_js oraError (js ''TNS:listener does not currently know of service'')
      then new_OracleMapError CONNECTION_FAILED
             (Some [26381, 21153, 21517, 19981, 23384, 22312])
             [(js ''oracleError'', oraError),
              (js ''suggestion'',
               [35831, 26816, 26597, 26381, 21153, 21517, 26159, 21542, 27491, 30830])]
      else new_OracleMapError CONNECTION_FAILED
             (Some ([25968, 25454, 24211, 36830, 25509, 22833, 36133] @ js '': '' @ oraError))
             [(js ''oracleError'', oraError)])"

section \<open>Regular-expression tests for keywords\<close>

text \<open>
  The validators build \<open>new RegExp('(^|B)KW(A|$)', 'i')\<close> for an upper-case ASCII keyword
  \<open>KW\<close> and one-character classes \<open>B\<close> and \<open>A\<close>, and call \<open>test\<close>. Without the
  \<open>u\<close> flag, \<open>i\<close> lets a letter of the keyword match itself and its ASCII lower-case
  form only (a code unit outside ASCII never canonicalises to an ASCII one), so a piece of
  text matches \<open>KW\<close> exactly when \<open>map upper_ascii\<close> of it is \<open>KW\<close>.

  \<open>kw_here\<close>: the keyword stands at the head of the rest of the string and is followed by
  the end or by a unit of class \<open>A\<close>. \<open>scan\<close> walks the string; \<open>ok\<close> says whether the
  position is the start or follows a unit of class \<open>B\<close>.
\<close>

definition kw_here :: "(nat \<Rightarrow> bool) \<Rightarrow> jstring \<Rightarrow> jstring \<Rightarrow> bool" where
  "kw_here trail kw s \<longleftrightarrow>
     map upper_ascii (take (length kw) s) = kw
     \<and> (case drop (length kw) s of [] \<Rightarrow> True | d # _ \<Rightarrow> trail d)"

fun scan :: "(nat \<Rightarrow> bool) \<Rightarrow> (nat \<Rightarrow> bool) \<Rightarrow> jstring \<Rightarrow> bool \<Rightarrow> jstring \<Rightarrow> bool" where
  "scan lead trail kw ok [] = (ok \<and> kw_here trail kw [])"
| "scan lead trail kw ok (c # cs) =
     ((ok \<and> kw_here trail kw (c # cs)) \<or> scan lead trail kw (lead c) cs)"

definition regex_test :: "(nat \<Rightarrow> bool) \<Rightarrow> (nat \<Rightarrow> bool) \<Rightarrow> jstring \<Rightarrow> jstring \<Rightarrow> bool" where
  "regex_test lead trail kw s = scan lead trail kw True s"

text \<open>
  What the test decides, said without the walk: the string splits into a part before, a
  part that reads as the keyword up to ASCII case, and a part after, where the part before
  is empty or ends in a unit of class \<open>B\<close> and the part after is empty or begins with a
  unit of class \<open>A\<close>.
\<close>

definition standalone :: "(nat \<Rightarrow> bool) \<Rightarrow> (nat \<Rightarrow> bool) \<Rightarrow> jstring \<Rightarrow> jstring \<Rightarrow> bool" where
  "standalone lead trail kw s \<longleftrightarrow>
     (\<exists>pre mid post. s = pre @ mid @ post \<and> map upper_ascii mid = kw
        \<and> (pre = [] \<or> lead (last pre)) \<and> (post = [] \<or> trail (hd post)))"

text \<open>
  The three delimiter classes of the source. The read validator uses \<open>\s\<close> on both
  sides, the DML validator \<open>\s|\(\<close> for the blacklist. Its test for WHERE is
  \<open>/\bWHERE\b/i\<close>: the keyword begins and ends with a word character, so there is a word
  boundary before it exactly at the start of the string or after a unit that is no word
  character, and after it exactly at the end or before such a unit; the class is the
  complement of \<open>\w\<close> on both sides.
\<close>

definition isSpaceOrParen :: "nat \<Rightarrow> bool" where
  "isSpaceOrParen c \<longleftrightarrow> isSpace c \<or> c = 40"

definition notWordChar :: "nat \<Rightarrow> bool" where
  "notWordChar c \<longleftrightarrow> \<not> isWordChar c"

section \<open>Security policy (config/security.js)\<close>

definition MAX_ROWS_LIMIT :: int where "MAX_ROWS_LIMIT = 1000"
definition CLOB_MAX_LENGTH :: nat where "CLOB_MAX_LENGTH = 4000"
definition BLOB_MAX_LENGTH :: nat where "BLOB_MAX_LENGTH = 1024"

text \<open>\<open>s.split(sep)\<close> for a one-unit separator: the pieces between the separators, in order.\<close>

fun split_js :: "nat \<Rightarrow> jstring \<Rightarrow> jstring list" where
  "split_js sep [] = [[]]"
| "split_js sep (c # cs) =
     (if c = sep then [] # split_js sep cs
      else (case split_js sep cs of [] \<Rightarrow> [[c]] | x # xs \<Rightarrow> (c # x) # xs))"

text \<open>
  \<open>new Set(tables)\<close>: a \<open>Set\<close> keeps each value once, in the order of first insertion
  (\<open>Array.from\<close> lists it in that order); \<open>has\<close> is membership.
\<close>

definition new_Set :: "jstring list \<Rightarrow> jstring list" where
  "new_Set xs = foldl (\<lambda>acc x. if x \<in> set acc then acc else acc @ [x]) [] xs"

definition has :: "jstring list \<Rightarrow> jstring \<Rightarrow> bool" where
  "has whitelist x \<longleftrightarrow> x \<in> set whitelist"

text \<open>
  \<open>getTableWhitelist\<close> reads \<open>process.env.ORACLE_TABLE_WHITELIST\<close>: the argument \<open>env\<close>
  is that variable, \<open>None\<close> when it is not set. The result \<open>None\<close> is the source's
  \<open>null\<close> (no whitelist).
\<close>

definition getTableWhitelist :: "(jstring \<Rightarrow> jstring) \<Rightarrow> jstring option \<Rightarrow> jstring list option" where
  "getTableWhitelist U env =
     (case env of
        None \<Rightarrow> None
      | Some whitelist \<Rightarrow>
          if whitelist = [] \<or> trim whitelist = [] then None
          else Some (new_Set (filter (\<lambda>t. length t > 0)
                       (map (\<lambda>t. toUpperCase U (trim t)) (split_js 44 whitelist)))))"

text \<open>
  The result \<open>{allowed, message}\<close> of \<open>checkTableAccess\<close>. The message of a denial says,
  in English: table \<open>tableName\<close> is not in the whitelist of tables that may be accessed;
  allowed tables: the whitelist joined by commas.
\<close>

record access =
  allowed :: bool
  access_message :: "jstring option"

definition checkTableAccess :: "(jstring \<Rightarrow> jstring) \<Rightarrow> jstring option \<Rightarrow> jstring \<Rightarrow> access" where
  "checkTableAccess U env tableName =
     (case getTableWhitelist U env of
        None \<Rightarrow> \<lparr> allowed = True, access_message = None \<rparr>
      | Some whitelist \<Rightarrow>
          (let upperTableName = toUpperCase U tableName in
           if has whitelist upperTableName then \<lparr> allowed = True, access_message = None \<rparr>
           else \<lparr> allowed = False,
                  access_message = Some ([34920, 32] @ tableName @ [32]
                    @ [19981, 22312, 20801, 35768, 35775, 38382, 30340, 30333, 21517, 21333,
                       20013, 12290, 20801, 35768, 30340, 34920] @ js '': ''
                    @ join (js '', '') whitelist) \<rparr>))"

text \<open>
  \<open>enforceRowLimit(requestedLimit, defaultLimit = 100)\<close>. A row limit is an integer; an
  argument that is \<open>undefined\<close> or \<open>null\<close> is \<open>None\<close>, and a \<open>defaultLimit\<close> that is
  not passed takes the default 100.
\<close>

definition enforceRowLimit :: "int option \<Rightarrow> int option \<Rightarrow> int" where
  "enforceRowLimit requestedLimit defaultLimit =
     (let d = (case defaultLimit of None \<Rightarrow> 100 | Some d \<Rightarrow> d) in
      case requestedLimit of
        None \<Rightarrow> min d MAX_ROWS_LIMIT
      | Some r \<Rightarrow> min (max 1 r) MAX_ROWS_LIMIT)"



text \<open>
  The texts of the DML validator's errors. In English: the SQL statement must not be
  empty; only INSERT/UPDATE statements may be executed; the SQL contains the forbidden
  keyword, followed by the keyword; an UPDATE statement must have a WHERE clause, to
  prevent updating the whole table.
\<close>

definition msg_empty_sql :: jstring where
  "msg_empty_sql = js ''SQL '' @ [35821, 21477, 19981, 33021, 20026, 31354]"




record validation =
  valid :: bool
  error :: "jstring option"



section \<open>SQL builder and read validator (query/executor.js)\<close>

text \<open>
  A number in a template literal is printed by \<open>Number.prototype.toString\<close>. An
  integer whose absolute value is at most \<open>Number.MAX_SAFE_INTEGER = 2^53 - 1\<close> is a
  JavaScript number and is printed in decimal, digit by digit, with a minus sign when
  negative. Above that bound a number carries the digits of the nearest double, and from
  \<open>10^21\<close> on it is printed in exponent notation: the text of a number outside the safe
  range is the parameter \<open>N\<close>.
\<close>

function show_nat :: "nat \<Rightarrow> jstring" where
  "show_nat n = (if n < 10 then [48 + n] else show_nat (n div 10) @ [48 + n mod 10])"
  by pat_completeness auto
termination
  by (relation "measure id") auto

declare show_nat.simps [simp del]

definition MAX_SAFE_INTEGER :: int where
  "MAX_SAFE_INTEGER = 9007199254740991"

definition show_number :: "(int \<Rightarrow> jstring) \<Rightarrow> int \<Rightarrow> jstring" where
  "show_number N i =
     (if - MAX_SAFE_INTEGER \<le> i \<and> i \<le> MAX_SAFE_INTEGER
      then (if i < 0 then 45 # show_nat (nat (- i)) else show_nat (nat i))
      else N i)"

text \<open>
  \<open>buildPaginatedSql(baseSql, limit, offset)\<close> for a string \<open>baseSql\<close> and numbers
  \<open>limit\<close> and \<open>offset\<close> that are integers, \<open>None\<close> when \<open>undefined\<close> or \<open>null\<close>.
\<close>

definition buildPaginatedSql ::
  "(int \<Rightarrow> jstring) \<Rightarrow> jstring \<Rightarrow> int option \<Rightarrow> int option \<Rightarrow> jstring" where
  "buildPaginatedSql N baseSql limit offset =
     (let trimmed = trim baseSql;
          sql = (if endsWith trimmed (js '';'') then butlast trimmed else trimmed);
          parts1 = (case offset of
                      None \<Rightarrow> []
                    | Some off \<Rightarrow>
                        if off > 0 then [js ''OFFSET '' @ show_number N off @ js '' ROWS''] else []);
          parts = (case limit of
                     None \<Rightarrow> parts1
                   | Some lim \<Rightarrow>
                       if lim > 0
                       then (if length parts1 = 0 then parts1 @ [js ''OFFSET 0 ROWS''] else parts1)
                            @ [js ''FETCH NEXT '' @ show_number N lim @ js '' ROWS ONLY'']
                       else parts1)
      in if length parts > 0 then sql @ js '' '' @ join (js '' '') parts else sql)"

text \<open>
  For the statements about \<open>buildPaginatedSql\<close>: an optional number that is present and
  greater than zero, the source's \<open>x !== undefined && x !== null && x > 0\<close>.
\<close>

definition positive :: "int option \<Rightarrow> bool" where
  "positive x = (case x of None \<Rightarrow> False | Some n \<Rightarrow> 0 < n)"

definition dangerousKeywords :: "jstring list" where
  "dangerousKeywords =
     [js ''DROP'', js ''DELETE'', js ''UPDATE'', js ''INSERT'', js ''TRUNCATE'', js ''ALTER'',
      js ''CREATE'']"

text \<open>
  The texts of the read validator's errors. In English: only SELECT queries are supported;
  use of the keyword, followed by the keyword, is not allowed.
\<close>

definition msg_select_only :: jstring where
  "msg_select_only = [21482, 25903, 25345] @ js '' SELECT '' @ [26597, 35810, 35821, 21477]"

definition msg_keyword_not_allowed :: "jstring \<Rightarrow> jstring" where
  "msg_keyword_not_allowed keyword =
     [19981, 20801, 35768, 20351, 29992] @ js '' '' @ keyword @ js '' '' @ [20851, 38190, 23383]"

text \<open>
  \<open>validateSql(sql)\<close> for a string \<open>sql\<close>. The prefix test is on the trimmed, upper-cased
  copy; the keyword tests are on \<open>sql\<close> itself.
\<close>

definition validateSql :: "(jstring \<Rightarrow> jstring) \<Rightarrow> jstring \<Rightarrow> validation" where
  "validateSql U sql =
     (if sql = [] then \<lparr> valid = False, error = Some msg_empty_sql \<rparr>
      else
        let trimmedSql = toUpperCase U (trim sql) in
        if \<not> startsWith trimmedSql (js ''SELECT'')
        then \<lparr> valid = False, error = Some msg_select_only \<rparr>
        else (case find (\<lambda>keyword. regex_test isSpace isSpace keyword sql) dangerousKeywords of
                Some keyword \<Rightarrow> \<lparr> valid = False, error = Some (msg_keyword_not_allowed keyword) \<rparr>
              | None \<Rightarrow> \<lparr> valid = True, error = None \<rparr>))"


section \<open>Values of the driver and of tool arguments\<close>

text \<open>
  The JavaScript values the code meets: cells of driver rows, column descriptors' fields and
  the JSON arguments of a tool call. Numbers are integers here. A \<open>Date\<close> is given by the
  text its \<open>toISOString()\<close> prints, \<open>None\<close> for an invalid date (whose \<open>getTime()\<close> is
  \<open>NaN\<close>); a \<open>Buffer\<close> by its bytes, values below 256; an object by its own properties
  in the order \<open>Object.keys\<close> lists them, all of them plain writable values, and its
  prototype is \<open>Object.prototype\<close>. Reading a name off such an object can also yield what
  \<open>Object.prototype\<close> holds: one of its built-in methods, \<open>JFunction\<close> with the name it
  has there, or, under \<open>__proto__\<close>, \<open>Object.prototype\<close> itself.
\<close>

datatype jsval =
    JUndefined
  | JNull
  | JBool bool
  | JNum int
  | JStr jstring
  | JDate "jstring option"
  | JBuffer "nat list"
  | JArr "jsval list"
  | JObj "(jstring \<times> jsval) list"
  | JFunction jstring
  | JObjectPrototype

fun truthy :: "jsval \<Rightarrow> bool" where
  "truthy JUndefined = False"
| "truthy JNull = False"
| "truthy (JBool b) = b"
| "truthy (JNum n) = (n \<noteq> 0)"
| "truthy (JStr s) = (s \<noteq> [])"
| "truthy (JDate d) = True"
| "truthy (JBuffer b) = True"
| "truthy (JArr xs) = True"
| "truthy (JObj kvs) = True"
| "truthy (JFunction f) = True"
| "truthy JObjectPrototype = True"

fun nullish :: "jsval \<Rightarrow> bool" where
  "nullish JUndefined = True"
| "nullish JNull = True"
| "nullish v = False"

section \<open>Objects read by name and built by assignment\<close>

text \<open>
  The names \<open>Object.prototype\<close> holds besides \<open>__proto__\<close>; each is a built-in method.
  \<open>obj[k]\<close> on a plain object is the object's own property \<open>k\<close> when it has one, else
  what \<open>Object.prototype\<close> holds under \<open>k\<close>, else \<open>undefined\<close>.
\<close>

definition Object_prototype_methods :: "jstring list" where
  "Object_prototype_methods =
     [js ''constructor'', js ''__defineGetter__'', js ''__defineSetter__'',
      js ''hasOwnProperty'', js ''__lookupGetter__'', js ''__lookupSetter__'',
      js ''isPrototypeOf'', js ''propertyIsEnumerable'', js ''toString'', js ''valueOf'',
      js ''toLocaleString'']"

definition Object_prototype_get :: "jstring \<Rightarrow> jsval" where
  "Object_prototype_get k =
     (if k = js ''__proto__'' then JObjectPrototype
      else if k \<in> set Object_prototype_methods then JFunction k
      else JUndefined)"

definition get_prop :: "(jstring \<times> jsval) list \<Rightarrow> jstring \<Rightarrow> jsval" where
  "get_prop obj k = (case map_of obj k of None \<Rightarrow> Object_prototype_get k | Some v \<Rightarrow> v)"

text \<open>
  An object that starts as \<open>{}\<close> and is filled by assignments \<open>obj[k] = v\<close>: its own
  properties in the order of their creation, and its prototype, which is
  \<open>Object.prototype\<close> at first and changes when a value is assigned to \<open>__proto__\<close>.
\<close>

datatype 'v proto = ProtoDefault | ProtoNull | ProtoValue 'v

record 'v jsobject =
  props :: "(jstring \<times> 'v) list"
  prototype :: "'v proto"

definition empty_object :: "'v jsobject" where
  "empty_object = \<lparr> props = [], prototype = ProtoDefault \<rparr>"

text \<open>
  \<open>obj[k] = v\<close> in strict mode (the modules of the repository are ES modules). When
  \<open>obj\<close> owns \<open>k\<close>, the value is replaced. Otherwise the prototype chain is searched for
  \<open>k\<close>, with one of three outcomes:
  \<^item> \<open>Create\<close>: the chain has no \<open>k\<close>, or a writable value: \<open>obj\<close> gets \<open>k\<close> as a new
    own property, after those it has;
  \<^item> \<open>Setter\<close>: the chain reaches the accessor \<open>__proto__\<close> of \<open>Object.prototype\<close>,
    whose setter creates no property: it makes an object or \<open>null\<close> the prototype of
    \<open>obj\<close> and ignores a value of any other kind;
  \<^item> \<open>Refused\<close>: the chain has \<open>k\<close> as a property that cannot be written, and the
    assignment throws a \<open>TypeError\<close>.

  \<open>Object.prototype\<close> holds writable methods and the accessor \<open>__proto__\<close>. A null
  prototype ends the chain at once, so every name, \<open>__proto__\<close> too, is created.
\<close>

datatype found = Create | Setter | Refused

datatype vkind = PrimitiveKind | NullKind | ObjectKind

definition Object_prototype_set :: "jstring \<Rightarrow> found" where
  "Object_prototype_set k = (if k = js ''__proto__'' then Setter else Create)"

definition assign ::
  "('v \<Rightarrow> vkind) \<Rightarrow> ('v \<Rightarrow> jstring \<Rightarrow> found) \<Rightarrow> 'v jsobject \<Rightarrow> jstring \<Rightarrow> 'v
   \<Rightarrow> exn + 'v jsobject" where
  "assign kind chain obj k v =
     (if map_of (props obj) k \<noteq> None
      then Inr (obj \<lparr> props := AList.update k v (props obj) \<rparr>)
      else
        case (case prototype obj of
                ProtoDefault \<Rightarrow> Object_prototype_set k
              | ProtoNull \<Rightarrow> Create
              | ProtoValue p \<Rightarrow> chain p k) of
          Create \<Rightarrow> Inr (obj \<lparr> props := AList.update k v (props obj) \<rparr>)
        | Refused \<Rightarrow> Inl TypeError
        | Setter \<Rightarrow>
            (case kind v of
               PrimitiveKind \<Rightarrow> Inr obj
             | NullKind \<Rightarrow> Inr (obj \<lparr> prototype := ProtoNull \<rparr>)
             | ObjectKind \<Rightarrow> Inr (obj \<lparr> prototype := ProtoValue v \<rparr>)))"

text \<open>
  The kinds of values, and the search for \<open>k\<close> in a chain that starts at a value that
  has become a prototype. An object given by its own properties has them writable; an
  array, a \<open>Date\<close> and \<open>Object.prototype\<close> hold writable properties only, besides the
  accessor \<open>__proto__\<close> at the end of the chain. A function has \<open>length\<close> and \<open>name\<close>
  read-only, inherits the accessors \<open>caller\<close> and \<open>arguments\<close>, whose setters throw, and
  the function \<open>Object\<close> (the \<open>constructor\<close> of \<open>Object.prototype\<close>) has \<open>prototype\<close>
  read-only. (No \<open>Buffer\<close> becomes a prototype: \<open>mapValue\<close> and \<open>processInsertValue\<close>
  turn each into a string.)
\<close>

fun kind_of :: "jsval \<Rightarrow> vkind" where
  "kind_of JUndefined = PrimitiveKind"
| "kind_of JNull = NullKind"
| "kind_of (JBool b) = PrimitiveKind"
| "kind_of (JNum n) = PrimitiveKind"
| "kind_of (JStr s) = PrimitiveKind"
| "kind_of v = ObjectKind"

fun chain_set :: "jsval \<Rightarrow> jstring \<Rightarrow> found" where
  "chain_set (JObj kvs) k = (if map_of kvs k \<noteq> None then Create else Object_prototype_set k)"
| "chain_set (JFunction f) k =
     (if k = js ''length'' \<or> k = js ''name'' \<or> k = js ''caller'' \<or> k = js ''arguments''
         \<or> (f = js ''constructor'' \<and> k = js ''prototype'')
      then Refused else Object_prototype_set k)"
| "chain_set v k = Object_prototype_set k"

section \<open>Result mapper (mapper/data.js)\<close>

definition LOB_CLOB_MAX_LENGTH :: nat where "LOB_CLOB_MAX_LENGTH = 4000"
definition LOB_BLOB_MAX_LENGTH :: nat where "LOB_BLOB_MAX_LENGTH = 1024"

text \<open>The marker: three dots, a space, and the Chinese for "truncated" in square brackets.\<close>

definition TRUNCATE_SUFFIX :: jstring where
  "TRUNCATE_SUFFIX = js ''... ['' @ [24050, 25130, 26029] @ js '']''"

text \<open>\<open>dateToIso\<close> on a \<open>Date\<close>: \<open>null\<close> for an invalid date, else the ISO text.\<close>

fun dateToIso :: "jsval \<Rightarrow> jsval" where
  "dateToIso JNull = JNull"
| "dateToIso JUndefined = JNull"
| "dateToIso (JDate None) = JNull"
| "dateToIso (JDate (Some isoText)) = JStr isoText"
| "dateToIso v = v"

definition truncateString :: "jstring \<Rightarrow> nat \<Rightarrow> jstring" where
  "truncateString str maxLength =
     (if length str \<le> maxLength then str else take maxLength str @ TRUNCATE_SUFFIX)"

text \<open>
  \<open>buffer.toString('base64')\<close>: three bytes give four digits of the alphabet
  \<open>A-Z a-z 0-9 + /\<close>, and a last group of one or two bytes is padded with \<open>=\<close>.
\<close>

definition b64_digit :: "nat \<Rightarrow> nat" where
  "b64_digit i =
     (if i < 26 then 65 + i
      else if i < 52 then 97 + (i - 26)
      else if i < 62 then 48 + (i - 52)
      else if i = 62 then 43
      else 47)"

fun base64 :: "nat list \<Rightarrow> jstring" where
  "base64 (a # b # c # rest) =
     [b64_digit (a div 4), b64_digit ((a mod 4) * 16 + b div 16),
      b64_digit ((b mod 16) * 4 + c div 64), b64_digit (c mod 64)] @ base64 rest"
| "base64 [a, b] =
     [b64_digit (a div 4), b64_digit ((a mod 4) * 16 + b div 16), b64_digit ((b mod 16) * 4), 61]"
| "base64 [a] = [b64_digit (a div 4), b64_digit ((a mod 4) * 16), 61, 61]"
| "base64 [] = []"

fun is_Date :: "jsval \<Rightarrow> bool" where
  "is_Date (JDate d) = True"
| "is_Date v = False"

fun is_string :: "jsval \<Rightarrow> bool" where
  "is_string (JStr s) = True"
| "is_string v = False"

fun isBuffer :: "jsval \<Rightarrow> bool" where
  "isBuffer (JBuffer b) = True"
| "isBuffer v = False"

fun str_of :: "jsval \<Rightarrow> jstring" where
  "str_of (JStr s) = s"
| "str_of v = []"

fun bytes_of :: "jsval \<Rightarrow> nat list" where
  "bytes_of (JBuffer b) = b"
| "bytes_of v = []"

text \<open>
  \<open>(oracleType || '').toUpperCase()\<close>: a falsy type counts as the empty string; a truthy
  value that is no string has no \<open>toUpperCase\<close>, and the call throws a \<open>TypeError\<close>.
\<close>

definition upperType_of :: "(jstring \<Rightarrow> jstring) \<Rightarrow> jsval \<Rightarrow> exn + jstring" where
  "upperType_of U oracleType =
     (if \<not> truthy oracleType then Inr (toUpperCase U [])
      else if is_string oracleType then Inr (toUpperCase U (str_of oracleType))
      else Inl TypeError)"

text \<open>
  \<open>mapValue(value, oracleType)\<close>. After the test for \<open>null\<close> and the upper-casing of
  the type name, which can throw, the rest of the body cannot: it is \<open>mapValue_typed\<close>.
  The tests come in the source's order; a test whose inner condition fails falls through
  to the next one.
\<close>

definition mapValue_typed :: "jstring \<Rightarrow> jsval \<Rightarrow> jsval" where
  "mapValue_typed upperType v =
     (if (startsWith upperType (js ''DATE'') \<or> startsWith upperType (js ''TIMESTAMP''))
         \<and> is_Date v
      then dateToIso v
      else if (upperType = js ''CLOB'' \<or> upperType = js ''NCLOB'' \<or> upperType = js ''LONG'')
              \<and> is_string v
      then JStr (truncateString (str_of v) LOB_CLOB_MAX_LENGTH)
      else if isBuffer v
      then (let truncatedBuffer =
                  (if length (bytes_of v) > LOB_BLOB_MAX_LENGTH
                   then take LOB_BLOB_MAX_LENGTH (bytes_of v) else bytes_of v);
                b64 = base64 truncatedBuffer
            in if length (bytes_of v) > LOB_BLOB_MAX_LENGTH
               then JStr (b64 @ TRUNCATE_SUFFIX)
               else JStr b64)
      else if (upperType = js ''BLOB'' \<or> upperType = js ''RAW'' \<or> upperType = js ''LONG RAW'')
              \<and> is_string v \<and> length (str_of v) > LOB_BLOB_MAX_LENGTH * 2
      then JStr (take (LOB_BLOB_MAX_LENGTH * 2) (str_of v) @ TRUNCATE_SUFFIX)
      else if is_string v \<and> length (str_of v) > LOB_CLOB_MAX_LENGTH
      then JStr (truncateString (str_of v) LOB_CLOB_MAX_LENGTH)
      else v)"

definition mapValue :: "(jstring \<Rightarrow> jstring) \<Rightarrow> jsval \<Rightarrow> jsval \<Rightarrow> exn + jsval" where
  "mapValue U v oracleType =
     (if v = JNull \<or> v = JUndefined then Inr JNull
      else
        case upperType_of U oracleType of
          Inl e \<Rightarrow> Inl e
        | Inr upperType \<Rightarrow> Inr (mapValue_typed upperType v))"

text \<open>
  A column descriptor is an object with the fields \<open>name\<close>, \<open>oracleType\<close> and \<open>dbType\<close>,
  or a plain string. \<open>column.name || column\<close> is the name when it is a non-empty string;
  for a string descriptor it is the string itself; an object without such a name is used
  as the key, which JavaScript prints as \<open>[object Object]\<close>.
\<close>

datatype column =
    ColumnObject "jstring option" jsval jsval
  | ColumnString jstring

fun columnName :: "column \<Rightarrow> jstring" where
  "columnName (ColumnObject (Some n) ot dt) = (if n \<noteq> [] then n else js ''[object Object]'')"
| "columnName (ColumnObject None ot dt) = js ''[object Object]''"
| "columnName (ColumnString s) = s"

text \<open>\<open>column.oracleType || column.dbType || ''\<close>; a string has neither field.\<close>

fun columnType :: "column \<Rightarrow> jsval" where
  "columnType (ColumnObject n ot dt) =
     (if truthy ot then ot else if truthy dt then dt else JStr [])"
| "columnType (ColumnString s) = JStr []"

text \<open>
  A driver row: an object (\<open>OUT_FORMAT_OBJECT\<close>), read by column name with \<open>get_prop\<close>,
  or an array (\<open>OUT_FORMAT_ARRAY\<close>), read by position. An index past the array's end
  reads as \<open>undefined\<close>.
\<close>

datatype row = ObjectRow "(jstring \<times> jsval) list" | ArrayRow "jsval list"

definition get_index :: "jsval list \<Rightarrow> nat \<Rightarrow> jsval" where
  "get_index arr i = (if i < length arr then arr ! i else JUndefined)"

text \<open>
  The two loops of \<open>mapRow\<close>, which fill \<open>result = {}\<close> by \<open>result[columnName] = ...\<close>.
  A \<open>TypeError\<close> of \<open>mapValue\<close> or of the assignment ends the loop.
\<close>

fun mapRow_object ::
  "(jstring \<Rightarrow> jstring) \<Rightarrow> (jstring \<times> jsval) list \<Rightarrow> column list \<Rightarrow> jsval jsobject
   \<Rightarrow> exn + jsval jsobject" where
  "mapRow_object U obj [] result = Inr result"
| "mapRow_object U obj (column # columns) result =
     (case mapValue U (get_prop obj (columnName column)) (columnType column) of
        Inl e \<Rightarrow> Inl e
      | Inr v \<Rightarrow>
          (case assign kind_of chain_set result (columnName column) v of
             Inl e \<Rightarrow> Inl e
           | Inr result' \<Rightarrow> mapRow_object U obj columns result'))"

fun mapRow_array ::
  "(jstring \<Rightarrow> jstring) \<Rightarrow> jsval list \<Rightarrow> nat \<Rightarrow> column list \<Rightarrow> jsval jsobject
   \<Rightarrow> exn + jsval jsobject" where
  "mapRow_array U arr i [] result = Inr result"
| "mapRow_array U arr i (column # columns) result =
     (case mapValue U (get_index arr i) (columnType column) of
        Inl e \<Rightarrow> Inl e
      | Inr v \<Rightarrow>
          (case assign kind_of chain_set result (columnName column) v of
             Inl e \<Rightarrow> Inl e
           | Inr result' \<Rightarrow> mapRow_array U arr (Suc i) columns result'))"

fun mapRow :: "(jstring \<Rightarrow> jstring) \<Rightarrow> row \<Rightarrow> column list \<Rightarrow> exn + jsval jsobject" where
  "mapRow U (ObjectRow obj) columns = mapRow_object U obj columns empty_object"
| "mapRow U (ArrayRow arr) columns = mapRow_array U arr 0 columns empty_object"

section \<open>The database driver\<close>

text \<open>
  The driver (\<open>oracledb\<close>) is outside the repository. The code calls three of its
  operations: \<open>pool.getConnection()\<close>, \<open>conn.execute(sql, binds, options)\<close> and
  \<open>conn.close()\<close>, each of which returns or throws a native error. A driver is any three
  functions that answer such a call given the calls made so far, so a theorem about every
  driver covers every way the database and the network can behave, call by call. The
  functions of the repository take the list of calls made so far and return it extended
  by the calls they made.

  A bind value is a plain value, \<open>new Date(x)\<close> or \<open>JSON.stringify(x)\<close> of an argument
  \<open>x\<close>. The binds of a call are the own properties of the object passed. The option \<open>autoCommit\<close> of \<open>execute\<close> is \<open>Some b\<close> when passed and \<open>None\<close> when
  the call has no options. What the code reads of a result is \<open>rowsAffected\<close>, which may be
  absent. Execution times (\<open>Date.now()\<close>) are left out of the results.
\<close>

type_synonym conn = nat

datatype bindval = PlainValue jsval | NewDate jsval | JsonText jsval



datatype call =
    Checkout
  | Execute conn jstring "(jstring \<times> bindval) list" "bool option"
  | Close conn

record driver =
  pool_getConnection :: "call list \<Rightarrow> native_error + conn"
  conn_execute ::
    "call list \<Rightarrow> conn \<Rightarrow> jstring \<Rightarrow> (jstring \<times> bindval) list \<Rightarrow> bool option
     \<Rightarrow> native_error + int option"
  conn_close :: "call list \<Rightarrow> conn \<Rightarrow> native_error + unit"

section \<open>Connection manager (db/connection.js)\<close>

text \<open>In English: the connection pool is not initialised, call createPool() first.\<close>

definition msg_pool_not_initialised :: jstring where
  "msg_pool_not_initialised =
     [36830, 25509, 27744, 26410, 21021, 22987, 21270, 65292, 35831, 20808, 35843, 29992]
     @ js '' createPool()''"

definition PROBE :: jstring where
  "PROBE = js ''SELECT 1 FROM DUAL''"

text \<open>
  \<open>getConnection()\<close>; \<open>pool\<close> says whether \<open>this.pool\<close> is set. The inner \<open>catch\<close> of the
  probe logs the error, closes the connection inside a \<open>try\<close> with an empty \<open>catch\<close>, and
  returns what a second \<open>pool.getConnection()\<close> gives; the outer \<open>catch\<close> turns any error
  of the two checkouts into an \<open>OracleMapError\<close>.
\<close>

definition getConnection :: "driver \<Rightarrow> bool \<Rightarrow> call list \<Rightarrow> (exn + conn) \<times> call list" where
  "getConnection drv pool h =
     (if \<not> pool
      then (Inl (Classified (new_OracleMapError CONNECTION_FAILED (Some msg_pool_not_initialised) [])), h)
      else
        case pool_getConnection drv h of
          Inl err \<Rightarrow> (Inl (Classified (handleConnectionError err)), h @ [Checkout])
        | Inr c \<Rightarrow>
            (let h1 = h @ [Checkout] in
             case conn_execute drv h1 c PROBE [] None of
               Inr result \<Rightarrow> (Inr c, h1 @ [Execute c PROBE [] None])
             | Inl pingError \<Rightarrow>
                 (let h2 = h1 @ [Execute c PROBE [] None];
                      h3 = (case conn_close drv h2 c of
                              Inl closeError \<Rightarrow> h2 @ [Close c]
                            | Inr u \<Rightarrow> h2 @ [Close c])
                  in case pool_getConnection drv h3 of
                       Inl err \<Rightarrow> (Inl (Classified (handleConnectionError err)), h3 @ [Checkout])
                     | Inr c2 \<Rightarrow> (Inr c2, h3 @ [Checkout]))))"

section \<open>Write operations (query/executor.js)\<close>





















section \<open>Drivers for the examples\<close>

text \<open>
  Five drivers on which the statements below are run. A checkout that succeeds hands out
  the number of calls made so far as the connection.
  \<^item> \<open>healthy_driver\<close>: every call succeeds, and a statement affects one row.
  \<^item> \<open>stale_driver\<close>: checkouts succeed; every \<open>execute\<close> and every \<open>close\<close> throws,
    a \<open>ROLLBACK\<close> with an error of its own.
  \<^item> \<open>flaky_driver\<close>: the first checkout succeeds and later ones throw; every \<open>execute\<close>
    and every \<open>close\<close> throws.
  \<^item> \<open>down_driver\<close>: every checkout throws.
  \<^item> \<open>commit_fails_driver\<close>: \<open>COMMIT\<close> throws and every other call succeeds.
\<close>

definition lost_contact :: native_error where
  "lost_contact = NativeError (Some (js ''ORA-03113: end-of-file on communication channel''))"

definition not_connected :: native_error where
  "not_connected = NativeError (Some (js ''ORA-03114: not connected to ORACLE''))"

definition no_listener :: native_error where
  "no_listener = NativeError (Some (js ''ORA-12541: TNS:no listener''))"

definition healthy_driver :: driver where
  "healthy_driver =
     \<lparr> pool_getConnection = (\<lambda>h. Inr (length h)),
       conn_execute = (\<lambda>h c sql binds autoCommit. Inr (Some 1)),
       conn_close = (\<lambda>h c. Inr ()) \<rparr>"

definition stale_driver :: driver where
  "stale_driver =
     \<lparr> pool_getConnection = (\<lambda>h. Inr (length h)),
       conn_execute = (\<lambda>h c sql binds autoCommit.
          if sql = js ''ROLLBACK'' then Inl not_connected else Inl lost_contact),
       conn_close = (\<lambda>h c. Inl lost_contact) \<rparr>"

definition flaky_driver :: driver where
  "flaky_driver =
     \<lparr> pool_getConnection = (\<lambda>h. if h = [] then Inr 0 else Inl no_listener),
       conn_execute = (\<lambda>h c sql binds autoCommit. Inl lost_contact),
       conn_close = (\<lambda>h c. Inl lost_contact) \<rparr>"

definition down_driver :: driver where
  "down_driver =
     \<lparr> pool_getConnection = (\<lambda>h. Inl no_listener),
       conn_execute = (\<lambda>h c sql binds autoCommit. Inl lost_contact),
       conn_close = (\<lambda>h c. Inl lost_contact) \<rparr>"


section \<open>The keyword test decides standalone occurrence\<close>

lemma kw_here_iff:
  "kw_here trail kw s \<longleftrightarrow>
     (\<exists>mid post. s = mid @ post \<and> map upper_ascii mid = kw \<and> (post = [] \<or> trail (hd post)))"
proof
  assume h: "kw_here trail kw s"
  then have m: "map upper_ascii (take (length kw) s) = kw"
    and d: "(case drop (length kw) s of [] \<Rightarrow> True | d # _ \<Rightarrow> trail d)"
    by (simp_all add: kw_here_def)
  have "s = take (length kw) s @ drop (length kw) s" by simp
  moreover have "drop (length kw) s = [] \<or> trail (hd (drop (length kw) s))"
    using d by (cases "drop (length kw) s") simp_all
  ultimately show "\<exists>mid post. s = mid @ post \<and> map upper_ascii mid = kw \<and> (post = [] \<or> trail (hd post))"
    using m by blast
next
  assume "\<exists>mid post. s = mid @ post \<and> map upper_ascii mid = kw \<and> (post = [] \<or> trail (hd post))"
  then obtain mid post where s: "s = mid @ post" and m: "map upper_ascii mid = kw"
    and p: "post = [] \<or> trail (hd post)" by blast
  from m have l: "length kw = length mid" by auto
  show "kw_here trail kw s"
    using m p by (cases post) (simp_all add: kw_here_def s l)
qed

lemma scan_iff:
  "scan lead trail kw ok s \<longleftrightarrow>
     (ok \<and> kw_here trail kw s)
     \<or> (\<exists>pre rest. s = pre @ rest \<and> pre \<noteq> [] \<and> lead (last pre) \<and> kw_here trail kw rest)"
proof (induction s arbitrary: ok)
  case Nil
  then show ?case by simp
next
  case (Cons c cs)
  have "(\<exists>pre rest. c # cs = pre @ rest \<and> pre \<noteq> [] \<and> lead (last pre) \<and> kw_here trail kw rest)
        \<longleftrightarrow> (lead c \<and> kw_here trail kw cs)
            \<or> (\<exists>pre rest. cs = pre @ rest \<and> pre \<noteq> [] \<and> lead (last pre) \<and> kw_here trail kw rest)"
    (is "?L \<longleftrightarrow> ?A \<or> ?B")
  proof
    assume ?L
    then obtain pre rest where e: "c # cs = pre @ rest" and n: "pre \<noteq> []"
      and l: "lead (last pre)" and k: "kw_here trail kw rest" by blast
    from e n obtain p where p: "pre = c # p" and cs: "cs = p @ rest"
      by (cases pre) auto
    show "?A \<or> ?B"
    proof (cases "p = []")
      case True
      with p cs l k show ?thesis by simp
    next
      case False
      with p l have "lead (last p)" by simp
      with False cs k show ?thesis by blast
    qed
  next
    assume "?A \<or> ?B"
    then show ?L
    proof
      assume ?A
      then have "c # cs = [c] @ cs \<and> [c] \<noteq> [] \<and> lead (last [c]) \<and> kw_here trail kw cs" by simp
      then show ?L by blast
    next
      assume ?B
      then obtain pre rest where "cs = pre @ rest" "pre \<noteq> []" "lead (last pre)" "kw_here trail kw rest"
        by blast
      then have "c # cs = (c # pre) @ rest \<and> c # pre \<noteq> [] \<and> lead (last (c # pre)) \<and> kw_here trail kw rest"
        by simp
      then show ?L by blast
    qed
  qed
  then show ?case using Cons.IH[of "lead c"] by auto
qed

lemma regex_test_standalone:
  "regex_test lead trail kw s \<longleftrightarrow> standalone lead trail kw s"
proof -
  have "standalone lead trail kw s \<longleftrightarrow>
          (\<exists>pre rest. s = pre @ rest \<and> (pre = [] \<or> lead (last pre)) \<and> kw_here trail kw rest)"
    unfolding standalone_def kw_here_iff by blast
  also have "\<dots> \<longleftrightarrow> kw_here trail kw s
      \<or> (\<exists>pre rest. s = pre @ rest \<and> pre \<noteq> [] \<and> lead (last pre) \<and> kw_here trail kw rest)"
    by (metis append_Nil)
  finally show ?thesis
    by (simp add: regex_test_def scan_iff)
qed

text \<open>
  A wider class of delimiters finds every occurrence a narrower one finds. White space and
  the opening parenthesis are no word characters, so a keyword that is standalone for the
  read validator or for the blacklist of the DML validator also stands between word
  boundaries.
\<close>

lemma standalone_mono:
  assumes "standalone lead trail kw s"
    and "\<And>c. lead c \<Longrightarrow> lead' c" and "\<And>c. trail c \<Longrightarrow> trail' c"
  shows "standalone lead' trail' kw s"
  using assms unfolding standalone_def by blast

lemma delimited_is_word_bounded:
  "standalone isSpace isSpace kw s \<Longrightarrow> standalone isSpaceOrParen isSpaceOrParen kw s"
  "standalone isSpaceOrParen isSpaceOrParen kw s \<Longrightarrow> standalone notWordChar notWordChar kw s"
  by (erule standalone_mono;
      auto simp: isSpaceOrParen_def notWordChar_def isSpace_def isWordChar_def)+

section \<open>Evaluation rules and small facts\<close>

lemmas str_eval =
  js_def trim_def isSpace_def isWordChar_def notWordChar_def isSpaceOrParen_def upper_ascii_def
  toUpperCase_def startsWith_def endsWith_def includes_js_def suffix_to_prefix
  sublist_Cons_right kw_here_def regex_test_def

lemma startsWith_nonempty:
  "startsWith (toUpperCase U (trim sql)) p \<Longrightarrow> p \<noteq> [] \<Longrightarrow> sql \<noteq> []"
  by (auto simp: startsWith_def toUpperCase_def trim_def)

lemma find_standalone_Some:
  "k \<in> set ks \<Longrightarrow> standalone lead trail k s \<Longrightarrow>
   \<exists>k'. find (\<lambda>k. regex_test lead trail k s) ks = Some k'"
  by (cases "find (\<lambda>k. regex_test lead trail k s) ks")
     (auto simp: find_None_iff regex_test_standalone)

text \<open>
  Assignments: a name other than \<open>__proto__\<close> never meets the setter, so an
  assignment to it that does not throw leaves the value under the name; no assignment
  touches another name.
\<close>

lemma chain_set_Setter: "chain_set p k = Setter \<Longrightarrow> k = js ''__proto__''"
  by (cases p) (simp_all add: Object_prototype_set_def split: if_splits)

lemma assign_other:
  "assign kind chain obj k v = Inr obj' \<Longrightarrow> k' \<noteq> k \<Longrightarrow>
   map_of (props obj') k' = map_of (props obj) k'"
  by (auto simp: assign_def update_conv' split: if_splits found.splits vkind.splits)

lemma assign_written:
  "assign kind_of chain_set obj k v = Inr obj' \<Longrightarrow> k \<noteq> js ''__proto__'' \<Longrightarrow>
   map_of (props obj') k = Some v"
  by (auto simp: assign_def update_conv' Object_prototype_set_def
      dest: chain_set_Setter split: if_splits found.splits proto.splits)

lemma assign_default:
  "prototype obj = ProtoDefault \<Longrightarrow> k \<noteq> js ''__proto__'' \<Longrightarrow>
   assign kind chain obj k v = Inr (obj \<lparr> props := AList.update k v (props obj) \<rparr>)"
  by (simp add: assign_def Object_prototype_set_def)



text \<open>The decimal numeral of a natural number: digits only, and it reads back as the number.\<close>

lemma show_nat_digits: "list_all (\<lambda>d. 48 \<le> d \<and> d \<le> 57) (show_nat n)"
proof (induction n rule: show_nat.induct)
  case (1 n)
  show ?case
  proof (cases "n < 10")
    case True
    then show ?thesis by (subst show_nat.simps) simp
  next
    case False
    with 1 have "list_all (\<lambda>d. 48 \<le> d \<and> d \<le> 57) (show_nat (n div 10))" by simp
    moreover have "n mod 10 < 10" by simp
    then have "48 + n mod 10 \<le> 57" by linarith
    ultimately show ?thesis using False by (subst show_nat.simps) simp
  qed
qed

lemma show_nat_value: "foldl (\<lambda>a d. 10 * a + (d - 48)) 0 (show_nat n) = n"
proof (induction n rule: show_nat.induct)
  case (1 n)
  show ?case
  proof (cases "n < 10")
    case True
    then show ?thesis by (subst show_nat.simps) simp
  next
    case False
    with 1 have "foldl (\<lambda>a d. 10 * a + (d - 48)) 0 (show_nat (n div 10)) = n div 10" by simp
    then show ?thesis using False by (subst show_nat.simps) simp
  qed
qed

section \<open>Error classification\<close>

text \<open>
  C9. A native error whose message contains \<open>ORA-01017\<close> is classified as an
  \<open>OracleMapError\<close> of the authentication-failure kind, code \<open>AUTH_FAILED = 102\<close>;
  \<open>getExitCode\<close> sends that kind to the connection-class exit code, which the error
  object carries too, and that exit code differs from the configuration, query, output and
  unknown exit codes (and from success).
\<close>

theorem handleConnectionError_auth_failed:
  assumes "includes_js m (js ''ORA-01017'')"
  shows "code (handleConnectionError (NativeError (Some m))) = AUTH_FAILED
       \<and> AUTH_FAILED = 102
       \<and> getExitCode (code (handleConnectionError (NativeError (Some m)))) = CONNECTION_ERROR
       \<and> exitCode (handleConnectionError (NativeError (Some m))) = CONNECTION_ERROR
       \<and> CONNECTION_ERROR \<notin> {SUCCESS, CONFIG_ERROR, QUERY_ERROR, OUTPUT_ERROR, UNKNOWN_ERROR}"
  using assms
  by (simp add: handleConnectionError_def new_OracleMapError_def getExitCode_def
      AUTH_FAILED_def CONNECTION_ERROR_def SUCCESS_def CONFIG_ERROR_def QUERY_ERROR_def
      OUTPUT_ERROR_def UNKNOWN_ERROR_def)

theorem handleConnectionError_auth_failed_witness:
  "includes_js (js ''ORA-01017: invalid username/password; logon denied'') (js ''ORA-01017'')
   \<and> code (handleConnectionError
        (NativeError (Some (js ''ORA-01017: invalid username/password; logon denied'')))) = 102
   \<and> exitCode (handleConnectionError
        (NativeError (Some (js ''ORA-01017: invalid username/password; logon denied'')))) = 1"
proof -
  have h: "includes_js (js ''ORA-01017: invalid username/password; logon denied'') (js ''ORA-01017'')"
    by (simp add: includes_js_def js_def)
  show ?thesis
    using h handleConnectionError_auth_failed [OF h]
    by (simp add: AUTH_FAILED_def CONNECTION_ERROR_def)
qed

section \<open>Row limit\<close>

text \<open>
  C2, as the code has it. \<open>enforceRowLimit\<close> is total. With no requested limit it
  returns \<open>min defaultLimit MAX_ROWS_LIMIT\<close> (the default \<open>defaultLimit\<close> is 100), with
  a requested limit \<open>r\<close> it returns \<open>min (max 1 r) MAX_ROWS_LIMIT\<close>, and the ceiling is
  1000. The result never exceeds 1000. It is at least 1 whenever a limit is requested, or
  \<open>defaultLimit\<close> is left at its default, or \<open>defaultLimit\<close> is itself at least 1.
\<close>

theorem enforceRowLimit_clamp:
  "enforceRowLimit None None = min 100 MAX_ROWS_LIMIT
   \<and> enforceRowLimit None (Some d) = min d MAX_ROWS_LIMIT
   \<and> enforceRowLimit (Some r) dl = min (max 1 r) MAX_ROWS_LIMIT
   \<and> MAX_ROWS_LIMIT = 1000
   \<and> enforceRowLimit R dl \<le> 1000
   \<and> 1 \<le> enforceRowLimit (Some r) dl
   \<and> 1 \<le> enforceRowLimit R None
   \<and> (1 \<le> d \<longrightarrow> 1 \<le> enforceRowLimit R (Some d))"
proof -
  have a: "enforceRowLimit None None = min 100 MAX_ROWS_LIMIT"
    and b: "enforceRowLimit None (Some d) = min d MAX_ROWS_LIMIT"
    and c: "enforceRowLimit (Some r) dl = min (max 1 r) MAX_ROWS_LIMIT"
    by (simp_all add: enforceRowLimit_def)
  have m: "MAX_ROWS_LIMIT = 1000" by (simp add: MAX_ROWS_LIMIT_def)
  have u: "enforceRowLimit R dl \<le> 1000"
    by (cases R) (simp_all add: enforceRowLimit_def m)
  have l1: "1 \<le> enforceRowLimit (Some r) dl"
    by (simp add: enforceRowLimit_def m)
  have l2: "1 \<le> enforceRowLimit R None"
    by (cases R) (simp_all add: enforceRowLimit_def m)
  have l3: "1 \<le> d \<longrightarrow> 1 \<le> enforceRowLimit R (Some d)"
    by (cases R) (simp_all add: enforceRowLimit_def m)
  from a b c m u l1 l2 l3 show ?thesis by blast
qed

theorem enforceRowLimit_clamp_witness:
  "(1::int) \<le> 250 \<and> enforceRowLimit None (Some 250) = 250
   \<and> enforceRowLimit (Some 0) (Some 250) = 1
   \<and> 1 \<le> enforceRowLimit None (Some 250)"
proof -
  note t = enforceRowLimit_clamp [of 250 0 "Some 250" None]
  have m: "MAX_ROWS_LIMIT = 1000" using t by blast
  have "enforceRowLimit None (Some 250) = min 250 MAX_ROWS_LIMIT" using t by blast
  moreover have "enforceRowLimit (Some 0) (Some 250) = min (max 1 0) MAX_ROWS_LIMIT" using t by blast
  moreover have "1 \<le> enforceRowLimit None (Some 250)" using t by simp
  ultimately show ?thesis by (simp add: m)
qed

text \<open>
  C2 as stated says the result always lies between 1 and 1000. With no requested limit
  the default is only capped from above: \<open>enforceRowLimit(undefined, 0)\<close> is 0.
\<close>

theorem enforceRowLimit_default_below_one_counterexample:
  "enforceRowLimit None (Some 0) = 0 \<and> \<not> 1 \<le> enforceRowLimit None (Some 0)"
  by (simp add: enforceRowLimit_def MAX_ROWS_LIMIT_def)

section \<open>Pagination\<close>

text \<open>
  C5. Let \<open>core\<close> be the trimmed base SQL without one trailing semicolon (when the
  trimmed text ends in a semicolon, \<open>core\<close> followed by that semicolon is the trimmed
  text; otherwise \<open>core\<close> is the trimmed text). \<open>buildPaginatedSql\<close> returns \<open>core\<close>
  followed by: \<open>OFFSET off ROWS\<close> exactly when the offset is present and positive;
  \<open>FETCH NEXT lim ROWS ONLY\<close> exactly when the limit is present and positive, preceded
  by \<open>OFFSET 0 ROWS\<close> when no offset clause was emitted; nothing when neither is
  present and positive. The numbers appear as JavaScript prints them, which for a positive
  integer up to \<open>2^53 - 1\<close> is its decimal numeral.
  \<open>buildPaginatedSql("SELECT * FROM T", 100, 50)\<close> is
  \<open>SELECT * FROM T OFFSET 50 ROWS FETCH NEXT 100 ROWS ONLY\<close>.
\<close>

theorem buildPaginatedSql_clauses:
  assumes "core = (if endsWith (trim baseSql) (js '';'') then butlast (trim baseSql) else trim baseSql)"
  shows "(endsWith (trim baseSql) (js '';'') \<longrightarrow> trim baseSql = core @ js '';'')
       \<and> (\<not> endsWith (trim baseSql) (js '';'') \<longrightarrow> trim baseSql = core)
       \<and> (positive (Some off) \<and> positive (Some lim) \<longrightarrow>
            buildPaginatedSql N baseSql (Some lim) (Some off) =
              core @ js '' OFFSET '' @ show_number N off @ js '' ROWS FETCH NEXT ''
                   @ show_number N lim @ js '' ROWS ONLY'')
       \<and> (positive (Some off) \<and> \<not> positive limit \<longrightarrow>
            buildPaginatedSql N baseSql limit (Some off) =
              core @ js '' OFFSET '' @ show_number N off @ js '' ROWS'')
       \<and> (\<not> positive offset \<and> positive (Some lim) \<longrightarrow>
            buildPaginatedSql N baseSql (Some lim) offset =
              core @ js '' OFFSET 0 ROWS FETCH NEXT '' @ show_number N lim @ js '' ROWS ONLY'')
       \<and> (\<not> positive offset \<and> \<not> positive limit \<longrightarrow>
            buildPaginatedSql N baseSql limit offset = core)
       \<and> (0 < n \<and> n \<le> MAX_SAFE_INTEGER \<longrightarrow>
            show_number N n = show_nat (nat n)
            \<and> list_all (\<lambda>d. 48 \<le> d \<and> d \<le> 57) (show_number N n)
            \<and> foldl (\<lambda>a d. 10 * a + (d - 48)) 0 (show_number N n) = nat n)
       \<and> buildPaginatedSql N (js ''SELECT * FROM T'') (Some 100) (Some 50) =
            js ''SELECT * FROM T OFFSET 50 ROWS FETCH NEXT 100 ROWS ONLY''"
proof -
  have semi: "endsWith (trim baseSql) (js '';'') \<longrightarrow> trim baseSql = core @ js '';''"
    using assms by (auto simp: endsWith_def js_def suffix_def)
  have nosemi: "\<not> endsWith (trim baseSql) (js '';'') \<longrightarrow> trim baseSql = core"
    using assms by simp
  have both: "positive (Some off) \<and> positive (Some lim) \<longrightarrow>
            buildPaginatedSql N baseSql (Some lim) (Some off) =
              core @ js '' OFFSET '' @ show_number N off @ js '' ROWS FETCH NEXT ''
                   @ show_number N lim @ js '' ROWS ONLY''"
    unfolding assms by (simp add: buildPaginatedSql_def positive_def js_def)
  have offonly: "positive (Some off) \<and> \<not> positive limit \<longrightarrow>
            buildPaginatedSql N baseSql limit (Some off) =
              core @ js '' OFFSET '' @ show_number N off @ js '' ROWS''"
    unfolding assms by (cases limit) (simp_all add: buildPaginatedSql_def positive_def js_def)
  have limonly: "\<not> positive offset \<and> positive (Some lim) \<longrightarrow>
            buildPaginatedSql N baseSql (Some lim) offset =
              core @ js '' OFFSET 0 ROWS FETCH NEXT '' @ show_number N lim @ js '' ROWS ONLY''"
    unfolding assms by (cases offset) (simp_all add: buildPaginatedSql_def positive_def js_def)
  have none: "\<not> positive offset \<and> \<not> positive limit \<longrightarrow>
            buildPaginatedSql N baseSql limit offset = core"
    unfolding assms
    by (cases offset; cases limit) (simp_all add: buildPaginatedSql_def positive_def)
  have digits: "0 < n \<and> n \<le> MAX_SAFE_INTEGER \<longrightarrow>
            show_number N n = show_nat (nat n)
            \<and> list_all (\<lambda>d. 48 \<le> d \<and> d \<le> 57) (show_number N n)
            \<and> foldl (\<lambda>a d. 10 * a + (d - 48)) 0 (show_number N n) = nat n"
    by (simp add: show_number_def MAX_SAFE_INTEGER_def show_nat_digits show_nat_value)
  have ex: "buildPaginatedSql N (js ''SELECT * FROM T'') (Some 100) (Some 50) =
            js ''SELECT * FROM T OFFSET 50 ROWS FETCH NEXT 100 ROWS ONLY''"
    by (simp add: buildPaginatedSql_def trim_def isSpace_def endsWith_def js_def
        show_number_def MAX_SAFE_INTEGER_def show_nat.simps suffix_to_prefix)
  from semi nosemi both offonly limonly none digits ex show ?thesis by blast
qed

theorem buildPaginatedSql_clauses_witness:
  "js ''SELECT * FROM EMPLOYEES'' =
     (if endsWith (trim (js '' SELECT * FROM EMPLOYEES; '')) (js '';'')
      then butlast (trim (js '' SELECT * FROM EMPLOYEES; ''))
      else trim (js '' SELECT * FROM EMPLOYEES; ''))
   \<and> endsWith (trim (js '' SELECT * FROM EMPLOYEES; '')) (js '';'')
   \<and> positive (Some 5) \<and> positive (Some 10) \<and> \<not> positive None \<and> \<not> positive (Some 0)
   \<and> (0::int) < 10 \<and> 10 \<le> MAX_SAFE_INTEGER
   \<and> show_number (\<lambda>i. []) 10 = js ''10''
   \<and> buildPaginatedSql (\<lambda>i. []) (js '' SELECT * FROM EMPLOYEES; '') (Some 10) (Some 5) =
       js ''SELECT * FROM EMPLOYEES OFFSET 5 ROWS FETCH NEXT 10 ROWS ONLY''
   \<and> buildPaginatedSql (\<lambda>i. []) (js '' SELECT * FROM EMPLOYEES; '') None (Some 5) =
       js ''SELECT * FROM EMPLOYEES OFFSET 5 ROWS''
   \<and> buildPaginatedSql (\<lambda>i. []) (js '' SELECT * FROM EMPLOYEES; '') (Some 10) (Some 0) =
       js ''SELECT * FROM EMPLOYEES OFFSET 0 ROWS FETCH NEXT 10 ROWS ONLY''
   \<and> buildPaginatedSql (\<lambda>i. []) (js '' SELECT * FROM EMPLOYEES; '') None None =
       js ''SELECT * FROM EMPLOYEES''"
proof -
  let ?N = "\<lambda>i::int. [] :: jstring"
  have c: "js ''SELECT * FROM EMPLOYEES'' =
     (if endsWith (trim (js '' SELECT * FROM EMPLOYEES; '')) (js '';'')
      then butlast (trim (js '' SELECT * FROM EMPLOYEES; ''))
      else trim (js '' SELECT * FROM EMPLOYEES; ''))"
    by (simp add: trim_def isSpace_def endsWith_def js_def suffix_to_prefix)
  have e: "endsWith (trim (js '' SELECT * FROM EMPLOYEES; '')) (js '';'')"
    by (simp add: trim_def isSpace_def endsWith_def js_def suffix_to_prefix)
  have p: "positive (Some 5) \<and> positive (Some 10) \<and> \<not> positive None \<and> \<not> positive (Some 0)"
    by (simp add: positive_def)
  have m: "(0::int) < 10 \<and> 10 \<le> MAX_SAFE_INTEGER"
    by (simp add: MAX_SAFE_INTEGER_def)
  have n5: "show_nat 5 = js ''5''" and n10: "show_nat 10 = js ''10''"
    by (simp_all add: show_nat.simps js_def)
  note t1 = buildPaginatedSql_clauses [OF c, of 5 10 ?N None "Some 0" 10]
  note t2 = buildPaginatedSql_clauses [OF c, of 5 10 ?N None None 5]
  have s10: "show_number ?N 10 = js ''10''"
    using t1 m n10 by simp
  have s5: "show_number ?N 5 = js ''5''"
    using t2 n5 by (simp add: MAX_SAFE_INTEGER_def)
  have a1: "buildPaginatedSql ?N (js '' SELECT * FROM EMPLOYEES; '') (Some 10) (Some 5) =
       js ''SELECT * FROM EMPLOYEES OFFSET 5 ROWS FETCH NEXT 10 ROWS ONLY''"
    using t1 p by (simp add: s5 s10 js_def)
  have a2: "buildPaginatedSql ?N (js '' SELECT * FROM EMPLOYEES; '') None (Some 5) =
       js ''SELECT * FROM EMPLOYEES OFFSET 5 ROWS''"
    using t1 p by (simp add: s5 s10 js_def)
  have a3: "buildPaginatedSql ?N (js '' SELECT * FROM EMPLOYEES; '') (Some 10) (Some 0) =
       js ''SELECT * FROM EMPLOYEES OFFSET 0 ROWS FETCH NEXT 10 ROWS ONLY''"
    using t1 p by (simp add: s5 s10 js_def)
  have a4: "buildPaginatedSql ?N (js '' SELECT * FROM EMPLOYEES; '') None None =
       js ''SELECT * FROM EMPLOYEES''"
    using t2 p by (simp add: js_def)
  from c e p m s10 a1 a2 a3 a4 show ?thesis by blast
qed

section \<open>Read validator\<close>

text \<open>
  C1, as the code has it. The validator's regular expression finds a keyword, in any mix of
  ASCII case, that is delimited on each side by white space or by the start or end of the
  string.
  \<^item> A string in which one of the seven keywords is so delimited is never valid.
  \<^item> If the statement does not start with SELECT (trimmed, upper-cased), the error is the
    select-only message, which contains none of the seven keywords.
  \<^item> If it does, the error names the first keyword, in the order DROP, DELETE, UPDATE,
    INSERT, TRUNCATE, ALTER, CREATE, that is so delimited in the string.
  \<^item> If it does and no keyword stands between word boundaries in the string, the
    statement is valid: a keyword inside a longer identifier, as in \<open>DELETED_FLAG\<close>, is
    no ground for rejection.

  Nothing is stated here about a statement that starts with SELECT and whose keywords
  stand between word boundaries only next to punctuation, as in \<open>;DROP\<close>.
\<close>

theorem validateSql_rejects_keywords:
  "(kw \<in> set dangerousKeywords \<and> standalone isSpace isSpace kw sql \<longrightarrow>
      \<not> valid (validateSql U sql))
   \<and> (sql \<noteq> [] \<and> \<not> startsWith (toUpperCase U (trim sql)) (js ''SELECT'') \<longrightarrow>
      validateSql U sql = \<lparr> valid = False, error = Some msg_select_only \<rparr>)
   \<and> \<not> (\<exists>k \<in> set dangerousKeywords. includes_js msg_select_only k)
   \<and> (startsWith (toUpperCase U (trim sql)) (js ''SELECT'')
      \<and> find (\<lambda>k. standalone isSpace isSpace k sql) dangerousKeywords = Some k \<longrightarrow>
      validateSql U sql = \<lparr> valid = False, error = Some (msg_keyword_not_allowed k) \<rparr>
      \<and> includes_js (msg_keyword_not_allowed k) k)
   \<and> (startsWith (toUpperCase U (trim sql)) (js ''SELECT'')
      \<and> \<not> (\<exists>k \<in> set dangerousKeywords. standalone notWordChar notWordChar k sql) \<longrightarrow>
      validateSql U sql = \<lparr> valid = True, error = None \<rparr>)
   \<and> \<not> (\<exists>k \<in> set dangerousKeywords.
            standalone notWordChar notWordChar k (js ''SELECT DELETED_FLAG FROM T''))
   \<and> validateSql U (js ''SELECT DELETED_FLAG FROM T'') = \<lparr> valid = True, error = None \<rparr>"
proof -
  have c1: "kw \<in> set dangerousKeywords \<and> standalone isSpace isSpace kw sql \<longrightarrow>
      \<not> valid (validateSql U sql)"
  proof
    assume h: "kw \<in> set dangerousKeywords \<and> standalone isSpace isSpace kw sql"
    then obtain k' where "find (\<lambda>k. regex_test isSpace isSpace k sql) dangerousKeywords = Some k'"
      using find_standalone_Some by blast
    then show "\<not> valid (validateSql U sql)"
      by (simp add: validateSql_def Let_def)
  qed
  have c2: "sql \<noteq> [] \<and> \<not> startsWith (toUpperCase U (trim sql)) (js ''SELECT'') \<longrightarrow>
      validateSql U sql = \<lparr> valid = False, error = Some msg_select_only \<rparr>"
    by (simp add: validateSql_def Let_def)
  have c2': "\<not> (\<exists>k \<in> set dangerousKeywords. includes_js msg_select_only k)"
    by (simp add: dangerousKeywords_def msg_select_only_def str_eval)
  have inc: "includes_js (msg_keyword_not_allowed k) k"
  proof -
    have "msg_keyword_not_allowed k =
            ([19981, 20801, 35768, 20351, 29992] @ js '' '') @ k @ (js '' '' @ [20851, 38190, 23383])"
      by (simp add: msg_keyword_not_allowed_def)
    then show ?thesis
      unfolding includes_js_def by (metis sublist_appendI)
  qed
  have c3: "startsWith (toUpperCase U (trim sql)) (js ''SELECT'')
      \<and> find (\<lambda>k. standalone isSpace isSpace k sql) dangerousKeywords = Some k \<longrightarrow>
      validateSql U sql = \<lparr> valid = False, error = Some (msg_keyword_not_allowed k) \<rparr>
      \<and> includes_js (msg_keyword_not_allowed k) k"
  proof
    assume h: "startsWith (toUpperCase U (trim sql)) (js ''SELECT'')
      \<and> find (\<lambda>k. standalone isSpace isSpace k sql) dangerousKeywords = Some k"
    then have "sql \<noteq> []"
      using startsWith_nonempty [of U sql "js ''SELECT''"] by (auto simp: js_def)
    with h inc show "validateSql U sql = \<lparr> valid = False, error = Some (msg_keyword_not_allowed k) \<rparr>
      \<and> includes_js (msg_keyword_not_allowed k) k"
      by (simp add: validateSql_def Let_def regex_test_standalone)
  qed
  have c4: "startsWith (toUpperCase U (trim sql)) (js ''SELECT'')
      \<and> \<not> (\<exists>k \<in> set dangerousKeywords. standalone notWordChar notWordChar k sql) \<longrightarrow>
      validateSql U sql = \<lparr> valid = True, error = None \<rparr>"
  proof
    assume h: "startsWith (toUpperCase U (trim sql)) (js ''SELECT'')
      \<and> \<not> (\<exists>k \<in> set dangerousKeywords. standalone notWordChar notWordChar k sql)"
    then have n: "sql \<noteq> []"
      using startsWith_nonempty [of U sql "js ''SELECT''"] by (auto simp: js_def)
    from h have "\<not> (\<exists>k \<in> set dangerousKeywords. standalone isSpace isSpace k sql)"
      using delimited_is_word_bounded by blast
    then have "find (\<lambda>k. regex_test isSpace isSpace k sql) dangerousKeywords = None"
      by (simp add: find_None_iff regex_test_standalone)
    with h n show "validateSql U sql = \<lparr> valid = True, error = None \<rparr>"
      by (simp add: validateSql_def Let_def)
  qed
  have e1: "\<not> (\<exists>k \<in> set dangerousKeywords.
            standalone notWordChar notWordChar k (js ''SELECT DELETED_FLAG FROM T''))"
    unfolding regex_test_standalone [symmetric] by (simp add: dangerousKeywords_def str_eval)
  have e2: "validateSql U (js ''SELECT DELETED_FLAG FROM T'') = \<lparr> valid = True, error = None \<rparr>"
    by (simp add: validateSql_def dangerousKeywords_def str_eval)
  from c1 c2 c2' c3 c4 e1 e2 show ?thesis by blast
qed

theorem validateSql_rejects_keywords_witness:
  "js ''DROP'' \<in> set dangerousKeywords
   \<and> standalone isSpace isSpace (js ''DROP'') (js ''SELECT * FROM EMPLOYEES; DROP TABLE EMPLOYEES'')
   \<and> startsWith (toUpperCase id (trim (js ''SELECT * FROM EMPLOYEES; DROP TABLE EMPLOYEES'')))
        (js ''SELECT'')
   \<and> find (\<lambda>k. standalone isSpace isSpace k (js ''SELECT * FROM EMPLOYEES; DROP TABLE EMPLOYEES''))
        dangerousKeywords = Some (js ''DROP'')
   \<and> validateSql id (js ''SELECT * FROM EMPLOYEES; DROP TABLE EMPLOYEES'') =
        \<lparr> valid = False, error = Some (msg_keyword_not_allowed (js ''DROP'')) \<rparr>
   \<and> js ''DELETE FROM EMPLOYEES'' \<noteq> []
   \<and> \<not> startsWith (toUpperCase id (trim (js ''DELETE FROM EMPLOYEES''))) (js ''SELECT'')
   \<and> validateSql id (js ''DELETE FROM EMPLOYEES'') =
        \<lparr> valid = False, error = Some msg_select_only \<rparr>
   \<and> startsWith (toUpperCase id (trim (js ''select id, name from users''))) (js ''SELECT'')
   \<and> \<not> (\<exists>k \<in> set dangerousKeywords.
            standalone notWordChar notWordChar k (js ''select id, name from users''))
   \<and> validateSql id (js ''select id, name from users'') = \<lparr> valid = True, error = None \<rparr>"
proof -
  let ?s1 = "js ''SELECT * FROM EMPLOYEES; DROP TABLE EMPLOYEES''"
  let ?s2 = "js ''DELETE FROM EMPLOYEES''"
  let ?s3 = "js ''select id, name from users''"
  have a1: "js ''DROP'' \<in> set dangerousKeywords"
    by (simp add: dangerousKeywords_def)
  have a2: "standalone isSpace isSpace (js ''DROP'') ?s1"
    unfolding regex_test_standalone [symmetric] by (simp add: str_eval)
  have a3: "startsWith (toUpperCase id (trim ?s1)) (js ''SELECT'')"
    by (simp add: str_eval)
  have a4: "find (\<lambda>k. standalone isSpace isSpace k ?s1) dangerousKeywords = Some (js ''DROP'')"
    unfolding regex_test_standalone [symmetric] by (simp add: dangerousKeywords_def str_eval)
  have b1: "?s2 \<noteq> []" by (simp add: js_def)
  have b2: "\<not> startsWith (toUpperCase id (trim ?s2)) (js ''SELECT'')"
    by (simp add: str_eval)
  have c1: "startsWith (toUpperCase id (trim ?s3)) (js ''SELECT'')"
    by (simp add: str_eval)
  have c2: "\<not> (\<exists>k \<in> set dangerousKeywords. standalone notWordChar notWordChar k ?s3)"
    unfolding regex_test_standalone [symmetric] by (simp add: dangerousKeywords_def str_eval)
  note t1 = validateSql_rejects_keywords [of "js ''DROP''" ?s1 id "js ''DROP''"]
  note t2 = validateSql_rejects_keywords [of "js ''DROP''" ?s2 id "js ''DROP''"]
  note t3 = validateSql_rejects_keywords [of "js ''DROP''" ?s3 id "js ''DROP''"]
  have r1: "validateSql id ?s1 = \<lparr> valid = False, error = Some (msg_keyword_not_allowed (js ''DROP'')) \<rparr>"
    using t1 a3 a4 by blast
  have r2: "validateSql id ?s2 = \<lparr> valid = False, error = Some msg_select_only \<rparr>"
    using t2 b1 b2 by blast
  have r3: "validateSql id ?s3 = \<lparr> valid = True, error = None \<rparr>"
    using t3 c1 c2 by blast
  from a1 a2 a3 a4 r1 b1 b2 r2 c1 c2 r3 show ?thesis by blast
qed

text \<open>
  C1 as stated promises, for every standalone keyword, a rejection with an error that names
  it. \<open>DROP TABLE T\<close> has DROP standalone and is rejected, but by the earlier test for
  SELECT: the error is the select-only message, in which DROP does not occur. And in
  \<open>SELECT * FROM T;DROP TABLE T\<close> the keyword DROP stands between word boundaries (a
  semicolon before it, a space after it), yet the validator's regular expression wants
  white space before it, and the statement is valid.
\<close>

theorem validateSql_keyword_counterexample:
  "js ''DROP'' \<in> set dangerousKeywords
   \<and> standalone isSpace isSpace (js ''DROP'') (js ''DROP TABLE T'')
   \<and> validateSql id (js ''DROP TABLE T'') = \<lparr> valid = False, error = Some msg_select_only \<rparr>
   \<and> \<not> includes_js msg_select_only (js ''DROP'')
   \<and> standalone notWordChar notWordChar (js ''DROP'') (js ''SELECT * FROM T;DROP TABLE T'')
   \<and> validateSql id (js ''SELECT * FROM T;DROP TABLE T'') = \<lparr> valid = True, error = None \<rparr>"
proof -
  have a: "js ''DROP'' \<in> set dangerousKeywords"
    by (simp add: dangerousKeywords_def)
  have b: "standalone isSpace isSpace (js ''DROP'') (js ''DROP TABLE T'')"
    unfolding regex_test_standalone [symmetric] by (simp add: str_eval)
  have c: "validateSql id (js ''DROP TABLE T'') = \<lparr> valid = False, error = Some msg_select_only \<rparr>"
    by (simp add: validateSql_def str_eval)
  have d: "\<not> includes_js msg_select_only (js ''DROP'')"
    by (simp add: msg_select_only_def str_eval)
  have e: "standalone notWordChar notWordChar (js ''DROP'') (js ''SELECT * FROM T;DROP TABLE T'')"
    unfolding regex_test_standalone [symmetric] by (simp add: str_eval)
  have f: "validateSql id (js ''SELECT * FROM T;DROP TABLE T'') = \<lparr> valid = True, error = None \<rparr>"
    by (simp add: validateSql_def dangerousKeywords_def str_eval)
  from a b c d e f show ?thesis by blast
qed

section \<open>DML validator\<close>






section \<open>Table whitelist\<close>

lemma new_Set_Nil: "new_Set [] = []"
  by (simp add: new_Set_def)

text \<open>
  C10, as the code has it. If the variable is set to a value that is not blank (its trimmed
  text is not empty) and none of its comma-separated pieces leaves a non-empty identifier
  after trimming and upper-casing, then \<open>getTableWhitelist\<close> returns the empty set, not
  \<open>null\<close>, and \<open>checkTableAccess\<close> denies every table name. If the variable is set to
  a blank value (empty, or white space only), \<open>getTableWhitelist\<close> returns \<open>null\<close> as
  for an unset variable, and \<open>checkTableAccess\<close> allows every table name.
\<close>

theorem degenerate_whitelist_denies_all:
  "(trim w \<noteq> []
      \<and> filter (\<lambda>t. length t > 0) (map (\<lambda>t. toUpperCase U (trim t)) (split_js 44 w)) = []
    \<longrightarrow> getTableWhitelist U (Some w) = Some []
        \<and> \<not> allowed (checkTableAccess U (Some w) tableName))
   \<and> (trim w = []
    \<longrightarrow> getTableWhitelist U (Some w) = None
        \<and> getTableWhitelist U (Some w) = getTableWhitelist U None
        \<and> checkTableAccess U (Some w) tableName = \<lparr> allowed = True, access_message = None \<rparr>)"
proof -
  have degenerate: "trim w \<noteq> []
      \<and> filter (\<lambda>t. length t > 0) (map (\<lambda>t. toUpperCase U (trim t)) (split_js 44 w)) = []
    \<longrightarrow> getTableWhitelist U (Some w) = Some []
        \<and> \<not> allowed (checkTableAccess U (Some w) tableName)"
  proof
    assume h: "trim w \<noteq> []
      \<and> filter (\<lambda>t. length t > 0) (map (\<lambda>t. toUpperCase U (trim t)) (split_js 44 w)) = []"
    then have "w \<noteq> []" by (auto simp: trim_def)
    with h have g: "getTableWhitelist U (Some w) = Some []"
      by (simp add: getTableWhitelist_def new_Set_Nil)
    then have "\<not> allowed (checkTableAccess U (Some w) tableName)"
      by (simp add: checkTableAccess_def has_def)
    with g show "getTableWhitelist U (Some w) = Some []
        \<and> \<not> allowed (checkTableAccess U (Some w) tableName)" by blast
  qed
  have blank: "trim w = []
    \<longrightarrow> getTableWhitelist U (Some w) = None
        \<and> getTableWhitelist U (Some w) = getTableWhitelist U None
        \<and> checkTableAccess U (Some w) tableName = \<lparr> allowed = True, access_message = None \<rparr>"
    by (simp add: getTableWhitelist_def checkTableAccess_def)
  from degenerate blank show ?thesis by blast
qed

theorem degenerate_whitelist_denies_all_witness:
  "trim (js '',,'') \<noteq> []
   \<and> filter (\<lambda>t. length t > 0) (map (\<lambda>t. toUpperCase id (trim t)) (split_js 44 (js '',,''))) = []
   \<and> getTableWhitelist id (Some (js '',,'')) = Some []
   \<and> \<not> allowed (checkTableAccess id (Some (js '',,'')) (js ''EMPLOYEES''))
   \<and> trim (js ''  '') = []
   \<and> getTableWhitelist id (Some (js ''  '')) = None
   \<and> checkTableAccess id (Some (js ''  '')) (js ''EMPLOYEES'') =
        \<lparr> allowed = True, access_message = None \<rparr>"
proof -
  have a: "trim (js '',,'') \<noteq> []"
    by (simp add: str_eval)
  have b: "filter (\<lambda>t. length t > 0) (map (\<lambda>t. toUpperCase id (trim t)) (split_js 44 (js '',,''))) = []"
    by (simp add: str_eval)
  have c: "trim (js ''  '') = []"
    by (simp add: str_eval)
  note t1 = degenerate_whitelist_denies_all [of "js '',,''" id "js ''EMPLOYEES''"]
  note t2 = degenerate_whitelist_denies_all [of "js ''  ''" id "js ''EMPLOYEES''"]
  have r1: "getTableWhitelist id (Some (js '',,'')) = Some []
            \<and> \<not> allowed (checkTableAccess id (Some (js '',,'')) (js ''EMPLOYEES''))"
    using t1 a b by blast
  have r2: "getTableWhitelist id (Some (js ''  '')) = None
            \<and> checkTableAccess id (Some (js ''  '')) (js ''EMPLOYEES'') =
                \<lparr> allowed = True, access_message = None \<rparr>"
    using t2 c by blast
  from a b c r1 r2 show ?thesis by blast
qed

text \<open>
  C10 as stated covers every non-empty value without identifiers. A value of white space
  only, such as a single space, is non-empty and has no identifier, yet the first test of
  \<open>getTableWhitelist\<close> treats it as unset: the result is \<open>null\<close> and every table is
  allowed.
\<close>

theorem blank_whitelist_counterexample:
  "js '' '' \<noteq> []
   \<and> filter (\<lambda>t. length t > 0) (map (\<lambda>t. toUpperCase id (trim t)) (split_js 44 (js '' ''))) = []
   \<and> getTableWhitelist id (Some (js '' '')) = None
   \<and> allowed (checkTableAccess id (Some (js '' '')) (js ''EMPLOYEES''))"
  by (simp add: getTableWhitelist_def checkTableAccess_def str_eval)

section \<open>Truncation of large values\<close>

lemma upperType_of_string: "upperType_of U (JStr t) = Inr (toUpperCase U t)"
  by (simp add: upperType_of_def)

lemma mapValue_string:
  "mapValue U (JStr s) (JStr t) =
     Inr (JStr (if toUpperCase U t \<in> {js ''CLOB'', js ''NCLOB'', js ''LONG''}
                then truncateString s LOB_CLOB_MAX_LENGTH
                else if toUpperCase U t \<in> {js ''BLOB'', js ''RAW'', js ''LONG RAW''}
                        \<and> length s > LOB_BLOB_MAX_LENGTH * 2
                then take (LOB_BLOB_MAX_LENGTH * 2) s @ TRUNCATE_SUFFIX
                else truncateString s LOB_CLOB_MAX_LENGTH))"
  by (auto simp: mapValue_def mapValue_typed_def upperType_of_string truncateString_def)

lemma mapValue_buffer:
  "mapValue U (JBuffer b) (JStr t) =
     Inr (JStr (if length b \<le> LOB_BLOB_MAX_LENGTH then base64 b
                else base64 (take LOB_BLOB_MAX_LENGTH b) @ TRUNCATE_SUFFIX))"
  by (auto simp: mapValue_def mapValue_typed_def upperType_of_string Let_def)

text \<open>
  C6, as the code has it. Let \<open>T\<close> be the upper-cased type name.
  \<^item> A string under CLOB, NCLOB or LONG, and a string under any type other than BLOB, RAW
    and LONG RAW, is returned unchanged when it has at most 4000 units, and otherwise cut
    to its first 4000 units followed by the marker.
  \<^item> A string under BLOB, RAW or LONG RAW is returned unchanged when it has at most 2048
    units, and otherwise cut to its first 2048 units followed by the marker.
  \<^item> A \<open>Buffer\<close>, under any type name, is encoded in base64: whole and unmarked when it
    has at most 1024 bytes, else its first 1024 bytes, with the marker after the encoding.
  \<^item> A 5000-unit CLOB maps to exactly its first 4000 units followed by the marker.
\<close>

theorem mapValue_truncation:
  assumes "T = toUpperCase U t"
  shows "(T \<in> {js ''CLOB'', js ''NCLOB'', js ''LONG''} \<or> T \<notin> {js ''BLOB'', js ''RAW'', js ''LONG RAW''} \<longrightarrow>
            mapValue U (JStr s) (JStr t) =
              Inr (JStr (if length s \<le> 4000 then s else take 4000 s @ TRUNCATE_SUFFIX)))
       \<and> (T \<in> {js ''BLOB'', js ''RAW'', js ''LONG RAW''} \<longrightarrow>
            mapValue U (JStr s) (JStr t) =
              Inr (JStr (if length s \<le> 2048 then s else take 2048 s @ TRUNCATE_SUFFIX)))
       \<and> mapValue U (JBuffer b) (JStr t) =
            Inr (JStr (if length b \<le> 1024 then base64 b
                       else base64 (take 1024 b) @ TRUNCATE_SUFFIX))
       \<and> (4000 < length s \<longrightarrow> length (take 4000 s) = 4000)
       \<and> (1024 < length b \<longrightarrow> length (take 1024 b) = 1024)
       \<and> mapValue U (JStr (replicate 5000 c)) (JStr (js ''CLOB'')) =
            Inr (JStr (replicate 4000 c @ TRUNCATE_SUFFIX))
       \<and> length (replicate 4000 c @ TRUNCATE_SUFFIX) = 4000 + length TRUNCATE_SUFFIX"
proof -
  have clob: "T \<in> {js ''CLOB'', js ''NCLOB'', js ''LONG''} \<or> T \<notin> {js ''BLOB'', js ''RAW'', js ''LONG RAW''} \<longrightarrow>
            mapValue U (JStr s) (JStr t) =
              Inr (JStr (if length s \<le> 4000 then s else take 4000 s @ TRUNCATE_SUFFIX))"
    unfolding assms mapValue_string
    by (auto simp: truncateString_def LOB_CLOB_MAX_LENGTH_def js_def)
  have blob: "T \<in> {js ''BLOB'', js ''RAW'', js ''LONG RAW''} \<longrightarrow>
            mapValue U (JStr s) (JStr t) =
              Inr (JStr (if length s \<le> 2048 then s else take 2048 s @ TRUNCATE_SUFFIX))"
    unfolding assms mapValue_string
    by (auto simp: truncateString_def LOB_CLOB_MAX_LENGTH_def LOB_BLOB_MAX_LENGTH_def js_def)
  have buf: "mapValue U (JBuffer b) (JStr t) =
            Inr (JStr (if length b \<le> 1024 then base64 b
                       else base64 (take 1024 b) @ TRUNCATE_SUFFIX))"
    by (simp add: mapValue_buffer LOB_BLOB_MAX_LENGTH_def)
  have up: "toUpperCase U (js ''CLOB'') = js ''CLOB''"
    by (simp add: toUpperCase_def js_def upper_ascii_def)
  have ex: "mapValue U (JStr (replicate 5000 c)) (JStr (js ''CLOB'')) =
            Inr (JStr (replicate 4000 c @ TRUNCATE_SUFFIX))"
    by (simp add: mapValue_string up truncateString_def LOB_CLOB_MAX_LENGTH_def)
  from clob blob buf ex show ?thesis by simp
qed

theorem mapValue_truncation_witness:
  "js ''CLOB'' = toUpperCase id (js ''clob'')
   \<and> js ''CLOB'' \<in> {js ''CLOB'', js ''NCLOB'', js ''LONG''}
   \<and> mapValue id (JStr (replicate 4001 65)) (JStr (js ''clob'')) =
        Inr (JStr (replicate 4000 65 @ TRUNCATE_SUFFIX))
   \<and> mapValue id (JStr (replicate 4000 65)) (JStr (js ''clob'')) = Inr (JStr (replicate 4000 65))
   \<and> js ''RAW'' = toUpperCase id (js ''raw'')
   \<and> js ''RAW'' \<in> {js ''BLOB'', js ''RAW'', js ''LONG RAW''}
   \<and> mapValue id (JStr (replicate 3000 65)) (JStr (js ''raw'')) =
        Inr (JStr (replicate 2048 65 @ TRUNCATE_SUFFIX))
   \<and> mapValue id (JBuffer (replicate 1025 0)) (JStr (js ''raw'')) =
        Inr (JStr (base64 (replicate 1024 0) @ TRUNCATE_SUFFIX))
   \<and> (4000::nat) < length (replicate 4001 (65::nat))
   \<and> (1024::nat) < length (replicate 1025 (0::nat))"
proof -
  have a: "js ''CLOB'' = toUpperCase id (js ''clob'')"
    by (simp add: str_eval)
  have b: "js ''RAW'' = toUpperCase id (js ''raw'')"
    by (simp add: str_eval)
  have a1: "mapValue id (JStr (replicate 4001 65)) (JStr (js ''clob'')) =
        Inr (JStr (replicate 4000 65 @ TRUNCATE_SUFFIX))"
    using mapValue_truncation [OF a, of "replicate 4001 65" "[]" 0] by simp
  have a2: "mapValue id (JStr (replicate 4000 65)) (JStr (js ''clob'')) = Inr (JStr (replicate 4000 65))"
    using mapValue_truncation [OF a, of "replicate 4000 65" "[]" 0] by simp
  have b1: "mapValue id (JStr (replicate 3000 65)) (JStr (js ''raw'')) =
        Inr (JStr (replicate 2048 65 @ TRUNCATE_SUFFIX))"
    using mapValue_truncation [OF b, of "replicate 3000 65" "[]" 0] by simp
  have b2: "mapValue id (JBuffer (replicate 1025 0)) (JStr (js ''raw'')) =
        Inr (JStr (base64 (replicate 1024 0) @ TRUNCATE_SUFFIX))"
    using mapValue_truncation [OF b, of "[]" "replicate 1025 0" 0] by simp
  from a b a1 a2 b1 b2 show ?thesis by simp
qed

text \<open>
  C6 as stated cuts any string longer than 4000 units to its first 4000 units. Under BLOB
  the threshold for a string is 2048: a 5000-unit string keeps 2048 units, not 4000.
\<close>

theorem mapValue_blob_string_counterexample:
  "mapValue id (JStr (replicate 5000 65)) (JStr (js ''BLOB'')) =
     Inr (JStr (replicate 2048 65 @ TRUNCATE_SUFFIX))
   \<and> mapValue id (JStr (replicate 5000 65)) (JStr (js ''BLOB'')) \<noteq>
     Inr (JStr (replicate 4000 65 @ TRUNCATE_SUFFIX))"
proof -
  have up: "toUpperCase id (js ''BLOB'') = js ''BLOB''"
    by (simp add: str_eval)
  have a: "mapValue id (JStr (replicate 5000 65)) (JStr (js ''BLOB'')) =
     Inr (JStr (replicate 2048 65 @ TRUNCATE_SUFFIX))"
    unfolding mapValue_string up by (simp add: LOB_BLOB_MAX_LENGTH_def js_def)
  have "length (replicate 2048 (65::nat) @ TRUNCATE_SUFFIX)
          \<noteq> length (replicate 4000 (65::nat) @ TRUNCATE_SUFFIX)"
    by simp
  then have "replicate 2048 (65::nat) @ TRUNCATE_SUFFIX \<noteq> replicate 4000 65 @ TRUNCATE_SUFFIX"
    by metis
  with a show ?thesis by simp
qed

section \<open>NULL cells\<close>

lemma mapValue_nullish: "nullish v \<Longrightarrow> mapValue U v ty = Inr JNull"
  by (cases v) (simp_all add: mapValue_def)

lemma mapValue_total: "is_string ty \<Longrightarrow> \<exists>r. mapValue U v ty = Inr r"
  by (cases ty) (simp_all add: mapValue_def upperType_of_def)

lemma mapRow_object_null:
  "mapRow_object U obj columns result = Inr out \<Longrightarrow> nullish (get_prop obj k) \<Longrightarrow>
   k \<noteq> js ''__proto__'' \<Longrightarrow>
   k \<in> columnName ` set columns \<or> map_of (props result) k = Some JNull \<Longrightarrow>
   map_of (props out) k = Some JNull"
proof (induction columns arbitrary: result)
  case Nil
  then show ?case by simp
next
  case (Cons c cs)
  from Cons.prems(1) obtain v result' where
    v: "mapValue U (get_prop obj (columnName c)) (columnType c) = Inr v"
    and a: "assign kind_of chain_set result (columnName c) v = Inr result'"
    and r: "mapRow_object U obj cs result' = Inr out"
    by (auto split: sum.splits)
  show ?case
  proof (cases "columnName c = k")
    case True
    with v Cons.prems(2) have "v = JNull"
      by (simp add: mapValue_nullish)
    with True a Cons.prems(3) have "map_of (props result') k = Some JNull"
      using assign_written by blast
    with Cons.IH [OF r Cons.prems(2,3)] show ?thesis by blast
  next
    case False
    with Cons.prems(4) have "k \<in> columnName ` set cs \<or> map_of (props result) k = Some JNull"
      by auto
    moreover from False a have "map_of (props result') k = map_of (props result) k"
      using assign_other by metis
    ultimately have "k \<in> columnName ` set cs \<or> map_of (props result') k = Some JNull"
      by simp
    with Cons.IH [OF r Cons.prems(2,3)] show ?thesis by blast
  qed
qed

lemma mapRow_array_frame:
  "mapRow_array U arr i columns result = Inr out \<Longrightarrow> k \<notin> columnName ` set columns \<Longrightarrow>
   map_of (props out) k = map_of (props result) k"
proof (induction columns arbitrary: i result)
  case Nil
  then show ?case by simp
next
  case (Cons c cs)
  from Cons.prems(1) obtain v result' where
    a: "assign kind_of chain_set result (columnName c) v = Inr result'"
    and r: "mapRow_array U arr (Suc i) cs result' = Inr out"
    by (auto split: sum.splits)
  from Cons.prems(2) have "k \<notin> columnName ` set cs" and "k \<noteq> columnName c" by auto
  with Cons.IH [OF r] assign_other [OF a] show ?case by simp
qed

lemma mapRow_array_null:
  "mapRow_array U arr i columns result = Inr out \<Longrightarrow> n < length columns \<Longrightarrow>
   nullish (get_index arr (i + n)) \<Longrightarrow>
   columnName (columns ! n) \<noteq> js ''__proto__'' \<Longrightarrow>
   \<forall>m. n < m \<and> m < length columns \<longrightarrow> columnName (columns ! m) \<noteq> columnName (columns ! n) \<Longrightarrow>
   map_of (props out) (columnName (columns ! n)) = Some JNull"
proof (induction columns arbitrary: i n result)
  case Nil
  then show ?case by simp
next
  case (Cons c cs)
  from Cons.prems(1) obtain v result' where
    v: "mapValue U (get_index arr i) (columnType c) = Inr v"
    and a: "assign kind_of chain_set result (columnName c) v = Inr result'"
    and r: "mapRow_array U arr (Suc i) cs result' = Inr out"
    by (auto split: sum.splits)
  show ?case
  proof (cases n)
    case 0
    with v Cons.prems(3) have "v = JNull"
      by (simp add: mapValue_nullish)
    with a Cons.prems(4) 0 have w: "map_of (props result') (columnName c) = Some JNull"
      using assign_written [of result "columnName c" v result'] by simp
    have "columnName c \<notin> columnName ` set cs"
    proof
      assume "columnName c \<in> columnName ` set cs"
      then obtain j where "j < length cs" and "columnName (cs ! j) = columnName c"
        by (auto simp: in_set_conv_nth)
      with Cons.prems(5) [rule_format, of "Suc j"] 0 show False by simp
    qed
    with w show ?thesis
      using mapRow_array_frame [OF r, of "columnName c"] 0 by simp
  next
    case (Suc n')
    have d: "\<forall>m. n' < m \<and> m < length cs \<longrightarrow> columnName (cs ! m) \<noteq> columnName (cs ! n')"
    proof (intro allI impI)
      fix m assume "n' < m \<and> m < length cs"
      with Cons.prems(5) [rule_format, of "Suc m"] Suc
      show "columnName (cs ! m) \<noteq> columnName (cs ! n')" by simp
    qed
    from Cons.prems(2,3,4) Suc have "n' < length cs" and "nullish (get_index arr (Suc i + n'))"
      and "columnName (cs ! n') \<noteq> js ''__proto__''"
      by simp_all
    from Cons.IH [OF r this d] Suc show ?thesis by simp
  qed
qed

lemma mapRow_object_total:
  "\<forall>c \<in> set columns. is_string (columnType c) \<and> columnName c \<noteq> js ''__proto__'' \<Longrightarrow>
   prototype result = ProtoDefault \<Longrightarrow>
   \<exists>r. mapRow_object U obj columns result = Inr r"
proof (induction columns arbitrary: result)
  case Nil
  then show ?case by simp
next
  case (Cons c cs)
  from Cons.prems have "is_string (columnType c)" and n: "columnName c \<noteq> js ''__proto__''"
    by simp_all
  then obtain v where v: "mapValue U (get_prop obj (columnName c)) (columnType c) = Inr v"
    using mapValue_total by blast
  let ?r = "result \<lparr> props := AList.update (columnName c) v (props result) \<rparr>"
  have a: "assign kind_of chain_set result (columnName c) v = Inr ?r"
    using assign_default [OF Cons.prems(2) n] .
  have "prototype ?r = ProtoDefault" using Cons.prems(2) by simp
  with Cons.IH [of ?r] Cons.prems(1) obtain r where "mapRow_object U obj cs ?r = Inr r"
    by auto
  with v a show ?case by simp
qed

lemma mapRow_array_total:
  "\<forall>c \<in> set columns. is_string (columnType c) \<and> columnName c \<noteq> js ''__proto__'' \<Longrightarrow>
   prototype result = ProtoDefault \<Longrightarrow>
   \<exists>r. mapRow_array U arr i columns result = Inr r"
proof (induction columns arbitrary: i result)
  case Nil
  then show ?case by simp
next
  case (Cons c cs)
  from Cons.prems have "is_string (columnType c)" and n: "columnName c \<noteq> js ''__proto__''"
    by simp_all
  then obtain v where v: "mapValue U (get_index arr i) (columnType c) = Inr v"
    using mapValue_total by blast
  let ?r = "result \<lparr> props := AList.update (columnName c) v (props result) \<rparr>"
  have a: "assign kind_of chain_set result (columnName c) v = Inr ?r"
    using assign_default [OF Cons.prems(2) n] .
  have "prototype ?r = ProtoDefault" using Cons.prems(2) by simp
  with Cons.IH [of ?r "Suc i"] Cons.prems(1) obtain r where "mapRow_array U arr (Suc i) cs ?r = Inr r"
    by auto
  with v a show ?case by simp
qed

text \<open>
  C7, as the code has it. A cell is NULL when reading it off the driver row gives \<open>null\<close>
  or \<open>undefined\<close>: the row holds \<open>null\<close> or \<open>undefined\<close> for the column, or an array row
  ends before the column's index, or an object row lacks the column's name and the name is
  none that every object inherits (such as \<open>constructor\<close>). The normalized row is an
  object keyed by column name, on which an assignment to \<open>__proto__\<close> creates no key. In
  the row \<open>mapRow\<close> returns:
  \<^item> for an object row, the key of every column whose cell is NULL and whose name is not
    \<open>__proto__\<close> is present and bound to \<open>null\<close>;
  \<^item> for an array row, the key of a column whose cell is NULL and whose name is not
    \<open>__proto__\<close> is present and bound to \<open>null\<close>, provided no later column has the same
    name.

  \<open>mapRow\<close> returns a row whenever every column's type is a string or absent and no
  column is named \<open>__proto__\<close>.
\<close>

theorem mapRow_null_cells:
  "(mapRow U (ObjectRow obj) columns = Inr out \<and> c \<in> set columns
      \<and> columnName c \<noteq> js ''__proto__''
      \<and> nullish (get_prop obj (columnName c)) \<longrightarrow>
      map_of (props out) (columnName c) = Some JNull)
   \<and> (mapRow U (ArrayRow arr) columns = Inr out \<and> n < length columns
      \<and> columnName (columns ! n) \<noteq> js ''__proto__''
      \<and> nullish (get_index arr n)
      \<and> columnName (columns ! n) \<notin> set (map columnName (drop (Suc n) columns)) \<longrightarrow>
      map_of (props out) (columnName (columns ! n)) = Some JNull)
   \<and> (list_all (\<lambda>c. is_string (columnType c) \<and> columnName c \<noteq> js ''__proto__'') columns \<longrightarrow>
      (\<exists>r. mapRow U rw columns = Inr r))
   \<and> (map_of obj k = None \<and> k \<noteq> js ''__proto__'' \<and> k \<notin> set Object_prototype_methods \<longrightarrow>
      get_prop obj k = JUndefined)
   \<and> (map_of obj k = Some v \<longrightarrow> get_prop obj k = v)
   \<and> (length arr \<le> n \<longrightarrow> get_index arr n = JUndefined)
   \<and> (n < length arr \<longrightarrow> get_index arr n = arr ! n)"
proof -
  have a: "mapRow U (ObjectRow obj) columns = Inr out \<and> c \<in> set columns
      \<and> columnName c \<noteq> js ''__proto__''
      \<and> nullish (get_prop obj (columnName c)) \<longrightarrow>
      map_of (props out) (columnName c) = Some JNull"
    using mapRow_object_null [of U obj columns empty_object out "columnName c"] by auto
  have b: "mapRow U (ArrayRow arr) columns = Inr out \<and> n < length columns
      \<and> columnName (columns ! n) \<noteq> js ''__proto__''
      \<and> nullish (get_index arr n)
      \<and> columnName (columns ! n) \<notin> set (map columnName (drop (Suc n) columns)) \<longrightarrow>
      map_of (props out) (columnName (columns ! n)) = Some JNull"
  proof
    assume h: "mapRow U (ArrayRow arr) columns = Inr out \<and> n < length columns
      \<and> columnName (columns ! n) \<noteq> js ''__proto__''
      \<and> nullish (get_index arr n)
      \<and> columnName (columns ! n) \<notin> set (map columnName (drop (Suc n) columns))"
    have d: "\<forall>m. n < m \<and> m < length columns \<longrightarrow>
               columnName (columns ! m) \<noteq> columnName (columns ! n)"
    proof (intro allI impI)
      fix m assume m: "n < m \<and> m < length columns"
      then have "columns ! m = drop (Suc n) columns ! (m - Suc n)"
        and "m - Suc n < length (drop (Suc n) columns)"
        by auto
      then have "columns ! m \<in> set (drop (Suc n) columns)"
        by (metis nth_mem)
      then have "columnName (columns ! m) \<in> set (map columnName (drop (Suc n) columns))"
        by simp
      with h show "columnName (columns ! m) \<noteq> columnName (columns ! n)"
        by metis
    qed
    from h mapRow_array_null [of U arr 0 columns empty_object out n, OF _ _ _ _ d]
    show "map_of (props out) (columnName (columns ! n)) = Some JNull" by simp
  qed
  have c: "list_all (\<lambda>c. is_string (columnType c) \<and> columnName c \<noteq> js ''__proto__'') columns \<longrightarrow>
      (\<exists>r. mapRow U rw columns = Inr r)"
  proof
    assume "list_all (\<lambda>c. is_string (columnType c) \<and> columnName c \<noteq> js ''__proto__'') columns"
    then have h: "\<forall>c \<in> set columns. is_string (columnType c) \<and> columnName c \<noteq> js ''__proto__''"
      by (simp add: list_all_iff)
    have p: "prototype (empty_object :: jsval jsobject) = ProtoDefault"
      by (simp add: empty_object_def)
    show "\<exists>r. mapRow U rw columns = Inr r"
      using mapRow_object_total [OF h p] mapRow_array_total [OF h p] by (cases rw) simp_all
  qed
  have d1: "map_of obj k = None \<and> k \<noteq> js ''__proto__'' \<and> k \<notin> set Object_prototype_methods \<longrightarrow>
      get_prop obj k = JUndefined"
    by (simp add: get_prop_def Object_prototype_get_def)
  have d2: "map_of obj k = Some v \<longrightarrow> get_prop obj k = v"
    by (simp add: get_prop_def)
  have d3: "length arr \<le> n \<longrightarrow> get_index arr n = JUndefined"
    by (simp add: get_index_def)
  have d4: "n < length arr \<longrightarrow> get_index arr n = arr ! n"
    by (simp add: get_index_def)
  from a b c d1 d2 d3 d4 show ?thesis by blast
qed

theorem mapRow_null_cells_witness:
  "mapRow id (ObjectRow [(js ''NAME'', JStr (js ''John'')), (js ''EMAIL'', JNull)])
       [ColumnObject (Some (js ''NAME'')) (JStr (js ''VARCHAR2'')) JUndefined,
        ColumnObject (Some (js ''AGE'')) (JStr (js ''NUMBER'')) JUndefined,
        ColumnObject (Some (js ''EMAIL'')) (JStr (js ''VARCHAR2'')) JUndefined]
     = Inr \<lparr> props = [(js ''NAME'', JStr (js ''John'')), (js ''AGE'', JNull), (js ''EMAIL'', JNull)],
             prototype = ProtoDefault \<rparr>
   \<and> ColumnObject (Some (js ''AGE'')) (JStr (js ''NUMBER'')) JUndefined
       \<in> set [ColumnObject (Some (js ''NAME'')) (JStr (js ''VARCHAR2'')) JUndefined,
                ColumnObject (Some (js ''AGE'')) (JStr (js ''NUMBER'')) JUndefined,
                ColumnObject (Some (js ''EMAIL'')) (JStr (js ''VARCHAR2'')) JUndefined]
   \<and> columnName (ColumnObject (Some (js ''AGE'')) (JStr (js ''NUMBER'')) JUndefined)
       \<noteq> js ''__proto__''
   \<and> map_of [(js ''NAME'', JStr (js ''John'')), (js ''EMAIL'', JNull)] (js ''AGE'') = None
   \<and> js ''AGE'' \<noteq> js ''__proto__'' \<and> js ''AGE'' \<notin> set Object_prototype_methods
   \<and> get_prop [(js ''NAME'', JStr (js ''John'')), (js ''EMAIL'', JNull)] (js ''AGE'') = JUndefined
   \<and> nullish (get_prop [(js ''NAME'', JStr (js ''John'')), (js ''EMAIL'', JNull)] (js ''AGE''))
   \<and> map_of [(js ''NAME'', JStr (js ''John'')), (js ''AGE'', JNull), (js ''EMAIL'', JNull)]
        (js ''AGE'') = Some JNull
   \<and> mapRow id (ArrayRow [JStr (js ''John''), JNum 30, JNull])
       [ColumnObject (Some (js ''NAME'')) (JStr (js ''VARCHAR2'')) JUndefined,
        ColumnObject (Some (js ''AGE'')) (JStr (js ''NUMBER'')) JUndefined,
        ColumnObject (Some (js ''EMAIL'')) (JStr (js ''VARCHAR2'')) JUndefined]
     = Inr \<lparr> props = [(js ''NAME'', JStr (js ''John'')), (js ''AGE'', JNum 30), (js ''EMAIL'', JNull)],
             prototype = ProtoDefault \<rparr>
   \<and> 2 < length [JStr (js ''John''), JNum 30, JNull]
   \<and> get_index [JStr (js ''John''), JNum 30, JNull] 2 = JNull
   \<and> nullish (get_index [JStr (js ''John''), JNum 30, JNull] 2)
   \<and> 2 < length
        [ColumnObject (Some (js ''NAME'')) (JStr (js ''VARCHAR2'')) JUndefined,
         ColumnObject (Some (js ''AGE'')) (JStr (js ''NUMBER'')) JUndefined,
         ColumnObject (Some (js ''EMAIL'')) (JStr (js ''VARCHAR2'')) JUndefined]
   \<and> columnName
        ([ColumnObject (Some (js ''NAME'')) (JStr (js ''VARCHAR2'')) JUndefined,
          ColumnObject (Some (js ''AGE'')) (JStr (js ''NUMBER'')) JUndefined,
          ColumnObject (Some (js ''EMAIL'')) (JStr (js ''VARCHAR2'')) JUndefined] ! 2)
       \<noteq> js ''__proto__''
   \<and> columnName
        ([ColumnObject (Some (js ''NAME'')) (JStr (js ''VARCHAR2'')) JUndefined,
          ColumnObject (Some (js ''AGE'')) (JStr (js ''NUMBER'')) JUndefined,
          ColumnObject (Some (js ''EMAIL'')) (JStr (js ''VARCHAR2'')) JUndefined] ! 2)
       \<notin> set (map columnName (drop (Suc 2)
        [ColumnObject (Some (js ''NAME'')) (JStr (js ''VARCHAR2'')) JUndefined,
         ColumnObject (Some (js ''AGE'')) (JStr (js ''NUMBER'')) JUndefined,
         ColumnObject (Some (js ''EMAIL'')) (JStr (js ''VARCHAR2'')) JUndefined]))
   \<and> map_of [(js ''NAME'', JStr (js ''John'')), (js ''AGE'', JNum 30), (js ''EMAIL'', JNull)]
        (js ''EMAIL'') = Some JNull
   \<and> list_all (\<lambda>c. is_string (columnType c) \<and> columnName c \<noteq> js ''__proto__'')
        [ColumnObject (Some (js ''NAME'')) (JStr (js ''VARCHAR2'')) JUndefined,
         ColumnObject (Some (js ''AGE'')) (JStr (js ''NUMBER'')) JUndefined,
         ColumnObject (Some (js ''EMAIL'')) (JStr (js ''VARCHAR2'')) JUndefined]"
proof -
  let ?cols = "[ColumnObject (Some (js ''NAME'')) (JStr (js ''VARCHAR2'')) JUndefined,
        ColumnObject (Some (js ''AGE'')) (JStr (js ''NUMBER'')) JUndefined,
        ColumnObject (Some (js ''EMAIL'')) (JStr (js ''VARCHAR2'')) JUndefined]"
  let ?obj = "[(js ''NAME'', JStr (js ''John'')), (js ''EMAIL'', JNull)]"
  let ?arr = "[JStr (js ''John''), JNum 30, JNull]"
  let ?p1 = "[(js ''NAME'', JStr (js ''John'')), (js ''AGE'', JNull), (js ''EMAIL'', JNull)]"
  let ?p2 = "[(js ''NAME'', JStr (js ''John'')), (js ''AGE'', JNum 30), (js ''EMAIL'', JNull)]"
  let ?o1 = "\<lparr> props = ?p1, prototype = ProtoDefault :: jsval proto \<rparr>"
  let ?o2 = "\<lparr> props = ?p2, prototype = ProtoDefault :: jsval proto \<rparr>"
  let ?age = "ColumnObject (Some (js ''AGE'')) (JStr (js ''NUMBER'')) JUndefined"
  have up: "toUpperCase id (js ''VARCHAR2'') = js ''VARCHAR2''"
    "toUpperCase id (js ''NUMBER'') = js ''NUMBER''"
    by (simp_all add: str_eval)
  have "mapValue id (JStr (js ''John'')) (JStr (js ''VARCHAR2'')) =
          Inr (JStr (truncateString (js ''John'') LOB_CLOB_MAX_LENGTH))"
    unfolding mapValue_string up by (simp add: js_def)
  then have mv1: "mapValue id (JStr (js ''John'')) (JStr (js ''VARCHAR2'')) = Inr (JStr (js ''John''))"
    by (simp add: truncateString_def LOB_CLOB_MAX_LENGTH_def js_def)
  have mv2: "mapValue id (JNum 30) (JStr (js ''NUMBER'')) = Inr (JNum 30)"
    by (simp add: mapValue_def mapValue_typed_def upperType_of_def)
  note mv = mv1 [unfolded js_def, simplified] mv2 [unfolded js_def, simplified]
  have m1: "map_of ?obj (js ''AGE'') = None"
    by (simp add: js_def)
  have m2: "js ''AGE'' \<noteq> js ''__proto__'' \<and> js ''AGE'' \<notin> set Object_prototype_methods"
    by (simp add: Object_prototype_methods_def js_def)
  have cn: "columnName ?age = js ''AGE''" by (simp add: js_def)
  have cp: "columnName ?age \<noteq> js ''__proto__''" by (simp add: js_def)
  have c2: "?age \<in> set ?cols" by simp
  have c3: "columnName (?cols ! 2) = js ''EMAIL''" by (simp add: js_def)
  have p3: "columnName (?cols ! 2) \<noteq> js ''__proto__''" by (simp add: js_def)
  have d3: "columnName (?cols ! 2) \<notin> set (map columnName (drop (Suc 2) ?cols))" by simp
  have l3: "2 < length ?cols" by simp
  have l4: "2 < length ?arr" by simp
  have la: "list_all (\<lambda>c. is_string (columnType c) \<and> columnName c \<noteq> js ''__proto__'') ?cols"
    by (simp add: js_def)
  have e1: "mapRow id (ObjectRow ?obj) ?cols = Inr ?o1"
    by (simp add: get_prop_def Object_prototype_get_def Object_prototype_methods_def
        mapValue_nullish mv assign_def Object_prototype_set_def empty_object_def js_def)
  have e2: "mapRow id (ArrayRow ?arr) ?cols = Inr ?o2"
    by (simp add: get_index_def mapValue_nullish mv assign_def Object_prototype_set_def
        empty_object_def js_def)
  note t1 = mapRow_null_cells [of id ?obj ?cols ?o1 ?age ?arr 2 "ObjectRow ?obj" "js ''AGE''" JNull]
  note t2 = mapRow_null_cells [of id ?obj ?cols ?o2 ?age ?arr 2 "ObjectRow ?obj" "js ''AGE''" JNull]
  have g1: "get_prop ?obj (js ''AGE'') = JUndefined"
    using t1 m1 m2 by blast
  then have n1: "nullish (get_prop ?obj (js ''AGE''))"
    by simp
  have g2: "get_index ?arr 2 = ?arr ! 2"
    using t2 l4 by blast
  then have g2': "get_index ?arr 2 = JNull" by simp
  then have n2: "nullish (get_index ?arr 2)" by simp
  have "map_of (props ?o1) (columnName ?age) = Some JNull"
    using t1 e1 c2 cp n1 unfolding cn by blast
  then have r1: "map_of ?p1 (js ''AGE'') = Some JNull"
    unfolding cn by simp
  have "map_of (props ?o2) (columnName (?cols ! 2)) = Some JNull"
    using t2 e2 l3 p3 n2 d3 by blast
  then have r2: "map_of ?p2 (js ''EMAIL'') = Some JNull"
    unfolding c3 by simp
  from e1 c2 cp m1 m2 g1 n1 r1 e2 l4 g2' n2 l3 p3 d3 r2 la show ?thesis by blast
qed

text \<open>
  C7 as stated holds for every row and every column list. Three rows for which it fails:
  \<^item> In an array row the result is keyed by name, so of two columns with one name the later
    one wins: with the columns \<open>A, A\<close> and the cells \<open>null, 5\<close> the first cell is NULL and
    the key \<open>A\<close> is bound to 5.
  \<^item> With the column \<open>__proto__\<close> and the cell \<open>null\<close>, the assignment makes \<open>null\<close>
    the prototype of the result and creates no key.
  \<^item> In the object row \<open>{}\<close> the key \<open>constructor\<close> is absent, and reading it gives the
    method every object inherits: the key is bound to that function, not to \<open>null\<close>.
\<close>

theorem mapRow_null_cell_counterexample:
  "nullish (get_index [JNull, JNum 5] 0)
   \<and> mapRow id (ArrayRow [JNull, JNum 5]) [ColumnString (js ''A''), ColumnString (js ''A'')]
       = Inr \<lparr> props = [(js ''A'', JNum 5)], prototype = ProtoDefault \<rparr>
   \<and> map_of [(js ''A'', JNum 5)] (columnName ([ColumnString (js ''A''), ColumnString (js ''A'')] ! 0))
       \<noteq> Some JNull
   \<and> nullish (get_index [JNull] 0)
   \<and> mapRow id (ArrayRow [JNull]) [ColumnString (js ''__proto__'')]
       = Inr \<lparr> props = [], prototype = ProtoNull \<rparr>
   \<and> map_of ([] :: (jstring \<times> jsval) list) (columnName (ColumnString (js ''__proto__''))) = None
   \<and> map_of ([] :: (jstring \<times> jsval) list) (js ''constructor'') = None
   \<and> mapRow id (ObjectRow []) [ColumnString (js ''constructor'')]
       = Inr \<lparr> props = [(js ''constructor'', JFunction (js ''constructor''))],
               prototype = ProtoDefault \<rparr>
   \<and> map_of [(js ''constructor'', JFunction (js ''constructor''))]
        (columnName (ColumnString (js ''constructor''))) \<noteq> Some JNull"
proof -
  have a: "nullish (get_index [JNull, JNum 5] 0)
   \<and> mapRow id (ArrayRow [JNull, JNum 5]) [ColumnString (js ''A''), ColumnString (js ''A'')]
       = Inr \<lparr> props = [(js ''A'', JNum 5)], prototype = ProtoDefault \<rparr>
   \<and> map_of [(js ''A'', JNum 5)] (columnName ([ColumnString (js ''A''), ColumnString (js ''A'')] ! 0))
       \<noteq> Some JNull"
    by (simp add: get_index_def mapValue_def mapValue_typed_def upperType_of_def toUpperCase_def
        assign_def Object_prototype_set_def empty_object_def js_def)
  have b: "nullish (get_index [JNull] 0)
   \<and> mapRow id (ArrayRow [JNull]) [ColumnString (js ''__proto__'')]
       = Inr \<lparr> props = [], prototype = ProtoNull \<rparr>
   \<and> map_of ([] :: (jstring \<times> jsval) list) (columnName (ColumnString (js ''__proto__''))) = None"
    by (simp add: get_index_def mapValue_def assign_def Object_prototype_set_def
        empty_object_def js_def)
  have c: "map_of ([] :: (jstring \<times> jsval) list) (js ''constructor'') = None
   \<and> mapRow id (ObjectRow []) [ColumnString (js ''constructor'')]
       = Inr \<lparr> props = [(js ''constructor'', JFunction (js ''constructor''))],
               prototype = ProtoDefault \<rparr>
   \<and> map_of [(js ''constructor'', JFunction (js ''constructor''))]
        (columnName (ColumnString (js ''constructor''))) \<noteq> Some JNull"
    by (simp add: get_prop_def Object_prototype_get_def Object_prototype_methods_def
        mapValue_def mapValue_typed_def upperType_of_def toUpperCase_def
        assign_def Object_prototype_set_def empty_object_def js_def)
  from a b c show ?thesis by blast
qed

section \<open>Checkout with a liveness probe\<close>

lemma handleConnectionError_connection_class:
  "exitCode (handleConnectionError err) = CONNECTION_ERROR"
  by (simp add: handleConnectionError_def new_OracleMapError_def getExitCode_def Let_def
      AUTH_FAILED_def TIMEOUT_def CONNECTION_FAILED_def)

text \<open>
  C8, as the code has it, for every driver and every history of calls.
  \<^item> With no pool, \<open>getConnection\<close> throws an \<open>OracleMapError\<close> of code
    \<open>CONNECTION_FAILED\<close> and calls nothing.
  \<^item> If the checkout fails, its error is thrown classified; that is the only call.
  \<^item> If the checkout gives \<open>c\<close>, the next call is the probe on \<open>c\<close>; if the probe
    succeeds, \<open>c\<close> is returned.
  \<^item> If the probe fails, \<open>c\<close> is closed, whatever the close answers, and one more
    checkout follows: its connection is returned as it is, with no probe on it, or its
    error is thrown classified. There is no third checkout.
  \<^item> Every classified error of a checkout is of the connection class, and
    \<open>getConnection\<close> never throws a native error or a \<open>TypeError\<close>.
\<close>

theorem getConnection_probe_and_retry:
  "(\<exists>e. getConnection drv False h = (Inl (Classified e), h) \<and> code e = CONNECTION_FAILED)
   \<and> (pool_getConnection drv h = Inl err \<longrightarrow>
        getConnection drv True h = (Inl (Classified (handleConnectionError err)), h @ [Checkout]))
   \<and> (pool_getConnection drv h = Inr c
        \<and> conn_execute drv (h @ [Checkout]) c PROBE [] None = Inr r \<longrightarrow>
        getConnection drv True h = (Inr c, h @ [Checkout, Execute c PROBE [] None]))
   \<and> (pool_getConnection drv h = Inr c
        \<and> conn_execute drv (h @ [Checkout]) c PROBE [] None = Inl pingError
        \<and> pool_getConnection drv (h @ [Checkout, Execute c PROBE [] None, Close c]) = Inl err2 \<longrightarrow>
        getConnection drv True h =
          (Inl (Classified (handleConnectionError err2)),
           h @ [Checkout, Execute c PROBE [] None, Close c, Checkout]))
   \<and> (pool_getConnection drv h = Inr c
        \<and> conn_execute drv (h @ [Checkout]) c PROBE [] None = Inl pingError
        \<and> pool_getConnection drv (h @ [Checkout, Execute c PROBE [] None, Close c]) = Inr c2 \<longrightarrow>
        getConnection drv True h =
          (Inr c2, h @ [Checkout, Execute c PROBE [] None, Close c, Checkout]))
   \<and> exitCode (handleConnectionError err') = CONNECTION_ERROR
   \<and> fst (getConnection drv pool h) \<noteq> Inl (Native nerr)
   \<and> fst (getConnection drv pool h) \<noteq> Inl TypeError"
proof -
  have p0: "\<exists>e. getConnection drv False h = (Inl (Classified e), h) \<and> code e = CONNECTION_FAILED"
    by (simp add: getConnection_def new_OracleMapError_def)
  have p1: "pool_getConnection drv h = Inl err \<longrightarrow>
        getConnection drv True h = (Inl (Classified (handleConnectionError err)), h @ [Checkout])"
    by (simp add: getConnection_def)
  have p2: "pool_getConnection drv h = Inr c
        \<and> conn_execute drv (h @ [Checkout]) c PROBE [] None = Inr r \<longrightarrow>
        getConnection drv True h = (Inr c, h @ [Checkout, Execute c PROBE [] None])"
    by (simp add: getConnection_def)
  have p3: "pool_getConnection drv h = Inr c
        \<and> conn_execute drv (h @ [Checkout]) c PROBE [] None = Inl pingError
        \<and> pool_getConnection drv (h @ [Checkout, Execute c PROBE [] None, Close c]) = Inl err2 \<longrightarrow>
        getConnection drv True h =
          (Inl (Classified (handleConnectionError err2)),
           h @ [Checkout, Execute c PROBE [] None, Close c, Checkout])"
    by (simp add: getConnection_def Let_def split: sum.split)
  have p4: "pool_getConnection drv h = Inr c
        \<and> conn_execute drv (h @ [Checkout]) c PROBE [] None = Inl pingError
        \<and> pool_getConnection drv (h @ [Checkout, Execute c PROBE [] None, Close c]) = Inr c2 \<longrightarrow>
        getConnection drv True h =
          (Inr c2, h @ [Checkout, Execute c PROBE [] None, Close c, Checkout])"
    by (simp add: getConnection_def Let_def split: sum.split)
  have p6: "fst (getConnection drv pool h) \<noteq> Inl (Native nerr)
      \<and> fst (getConnection drv pool h) \<noteq> Inl TypeError"
    by (simp add: getConnection_def Let_def split: sum.split)
  from p0 p1 p2 p3 p4 p6 handleConnectionError_connection_class [of err']
  show ?thesis by blast
qed

theorem getConnection_probe_and_retry_witness:
  "pool_getConnection down_driver [] = Inl no_listener
   \<and> getConnection down_driver True [] =
        (Inl (Classified (handleConnectionError no_listener)), [Checkout])
   \<and> pool_getConnection healthy_driver [] = Inr 0
   \<and> conn_execute healthy_driver [Checkout] 0 PROBE [] None = Inr (Some 1)
   \<and> getConnection healthy_driver True [] = (Inr 0, [Checkout, Execute 0 PROBE [] None])
   \<and> pool_getConnection flaky_driver [] = Inr 0
   \<and> conn_execute flaky_driver [Checkout] 0 PROBE [] None = Inl lost_contact
   \<and> pool_getConnection flaky_driver [Checkout, Execute 0 PROBE [] None, Close 0] = Inl no_listener
   \<and> getConnection flaky_driver True [] =
        (Inl (Classified (handleConnectionError no_listener)),
         [Checkout, Execute 0 PROBE [] None, Close 0, Checkout])
   \<and> pool_getConnection stale_driver [] = Inr 0
   \<and> conn_execute stale_driver [Checkout] 0 PROBE [] None = Inl lost_contact
   \<and> pool_getConnection stale_driver [Checkout, Execute 0 PROBE [] None, Close 0] = Inr 3
   \<and> getConnection stale_driver True [] =
        (Inr 3, [Checkout, Execute 0 PROBE [] None, Close 0, Checkout])"
proof -
  have d: "pool_getConnection down_driver [] = Inl no_listener"
    by (simp add: down_driver_def)
  have h1: "pool_getConnection healthy_driver [] = Inr 0"
    and h2: "conn_execute healthy_driver [Checkout] 0 PROBE [] None = Inr (Some 1)"
    by (simp_all add: healthy_driver_def)
  have f1: "pool_getConnection flaky_driver [] = Inr 0"
    and f2: "conn_execute flaky_driver [Checkout] 0 PROBE [] None = Inl lost_contact"
    and f3: "pool_getConnection flaky_driver [Checkout, Execute 0 PROBE [] None, Close 0] = Inl no_listener"
    by (simp_all add: flaky_driver_def)
  have s1: "pool_getConnection stale_driver [] = Inr 0"
    and s2: "conn_execute stale_driver [Checkout] 0 PROBE [] None = Inl lost_contact"
    and s3: "pool_getConnection stale_driver [Checkout, Execute 0 PROBE [] None, Close 0] = Inr 3"
    by (simp_all add: stale_driver_def PROBE_def js_def)
  have rd: "getConnection down_driver True [] =
        (Inl (Classified (handleConnectionError no_listener)), [Checkout])"
    using getConnection_probe_and_retry [of down_driver "[]" no_listener] d by simp
  have rh: "getConnection healthy_driver True [] = (Inr 0, [Checkout, Execute 0 PROBE [] None])"
    using getConnection_probe_and_retry [of healthy_driver "[]" no_listener 0 "Some 1"] h1 h2
    by simp
  have rf: "getConnection flaky_driver True [] =
        (Inl (Classified (handleConnectionError no_listener)),
         [Checkout, Execute 0 PROBE [] None, Close 0, Checkout])"
    using getConnection_probe_and_retry
      [of flaky_driver "[]" no_listener 0 "Some 1" lost_contact no_listener] f1 f2 f3
    by simp
  have rs: "getConnection stale_driver True [] =
        (Inr 3, [Checkout, Execute 0 PROBE [] None, Close 0, Checkout])"
    using getConnection_probe_and_retry
      [of stale_driver "[]" no_listener 0 "Some 1" lost_contact no_listener 3] s1 s2 s3
    by simp
  from d rd h1 h2 rh f1 f2 f3 rf s1 s2 s3 rs show ?thesis by blast
qed

text \<open>
  C8 as stated probes every connection that is checked out. The connection of the retry
  is not probed: on \<open>stale_driver\<close> the first connection, 0, fails its probe and is
  closed, and the second, 3, is returned with no \<open>execute\<close> on it.
\<close>

theorem getConnection_retry_unprobed_counterexample:
  "getConnection stale_driver True [] =
     (Inr 3, [Checkout, Execute 0 PROBE [] None, Close 0, Checkout])
   \<and> Execute 3 PROBE [] None \<notin> set [Checkout, Execute 0 PROBE [] None, Close 0, Checkout]"
  by (simp add: getConnection_def stale_driver_def PROBE_def js_def)

section \<open>Transactions of the write operations\<close>







end
